theory Spec2Isabelle
  imports Complex_Main "HOL-Library.AList"
begin

section \<open>Python values shared by both source files\<close>

text \<open>
  Exceptions are values: every function that can raise returns \<open>py_error + 'a\<close>,
  with \<open>Inl\<close> the exception. \<open>RuntimeError\<close> and \<open>IndexError\<close> are what the tensor
  library raises on a shape mismatch or an index out of range, \<open>SafetensorError\<close> is a
  checkpoint file that cannot be read.
\<close>

datatype py_error =
    AssertionError
  | AttributeError
  | ZeroDivisionError
  | ValueError
  | IndexError
  | RuntimeError
  | SafetensorError
  | HTTPError

text \<open>Sequencing of fallible steps: the first exception ends the computation.\<close>

definition bind_err :: "py_error + 'a \<Rightarrow> ('a \<Rightarrow> py_error + 'b) \<Rightarrow> py_error + 'b" where
  "bind_err m k = (case m of Inl e \<Rightarrow> Inl e | Inr a \<Rightarrow> k a)"

section \<open>Tensors\<close>

text \<open>
  A tensor is its shape and its entries, read by multi-index. Only the entries at the
  indices of the shape (each component below the size of its dimension) mean anything.
  Floating-point entries are read as real and complex numbers, so a dtype conversion
  (\<open>.float()\<close>, \<open>.type_as(x)\<close>) is the identity: the development is about the arithmetic
  the code asks for, not its rounding. Integer tensors that enter integer arithmetic
  carry their dtype (\<open>int_tensor\<close> below), and that arithmetic wraps around.
  Each operation below is the torch operation of the same name, with the checks torch
  makes on shapes and dimensions.
\<close>

record 'a tensor =
  shape :: "nat list"
  elems :: "nat list \<Rightarrow> 'a"

definition numel :: "nat list \<Rightarrow> nat" where
  "numel sh = prod_list sh"

text \<open>All the indices of a shape, in row-major order.\<close>

definition indices :: "nat list \<Rightarrow> nat list list" where
  "indices sh = List.product_lists (map (\<lambda>n. [0..<n]) sh)"

text \<open>A dimension argument: negative values count from the last dimension.\<close>

definition norm_dim :: "nat \<Rightarrow> int \<Rightarrow> py_error + nat" where
  "norm_dim r d =
     (if - int r \<le> d \<and> d < int r then Inr (nat (if d < 0 then d + int r else d))
      else Inl IndexError)"

definition tmap :: "('a \<Rightarrow> 'b) \<Rightarrow> 'a tensor \<Rightarrow> 'b tensor" where
  "tmap f t = \<lparr>shape = shape t, elems = (\<lambda>idx. f (elems t idx))\<rparr>"

text \<open>\<open>torch.arange(start, end, step)\<close>: the bounds must agree with the sign of the step.\<close>

definition arange :: "int \<Rightarrow> int \<Rightarrow> int \<Rightarrow> py_error + int tensor" where
  "arange start end step =
     (if step = 0 then Inl RuntimeError
      else if (step > 0 \<and> end < start) \<or> (step < 0 \<and> start < end) then Inl RuntimeError
      else Inr \<lparr>shape = [nat ((end - start + step - (if step > 0 then 1 else - 1)) div step)],
               elems = (\<lambda>idx. start + int (hd idx) * step)\<rparr>)"

text \<open>The slice \<open>t[:stop]\<close> of the first dimension.\<close>

definition slice_to :: "int \<Rightarrow> 'a tensor \<Rightarrow> py_error + 'a tensor" where
  "slice_to stop t =
     (case shape t of
        [] \<Rightarrow> Inl IndexError
      | n # sh \<Rightarrow>
          Inr (t\<lparr>shape := (if stop < 0 then nat (int n + stop) else min n (nat stop)) # sh\<rparr>))"

definition outer :: "'a::times tensor \<Rightarrow> 'a tensor \<Rightarrow> py_error + 'a tensor" where
  "outer a b =
     (case (shape a, shape b) of
        ([n], [m]) \<Rightarrow>
          Inr \<lparr>shape = [n, m], elems = (\<lambda>idx. elems a [idx ! 0] * elems b [idx ! 1])\<rparr>
      | _ \<Rightarrow> Inl RuntimeError)"

definition ones_like :: "'a tensor \<Rightarrow> real tensor" where
  "ones_like t = \<lparr>shape = shape t, elems = (\<lambda>idx. 1)\<rparr>"

definition zeros :: "int \<Rightarrow> py_error + real tensor" where
  "zeros n = (if n < 0 then Inl RuntimeError else Inr \<lparr>shape = [nat n], elems = (\<lambda>idx. 0)\<rparr>)"

definition polar :: "real tensor \<Rightarrow> real tensor \<Rightarrow> py_error + complex tensor" where
  "polar a ang =
     (if shape a = shape ang
      then Inr \<lparr>shape = shape a,
                elems = (\<lambda>idx. complex_of_real (elems a idx) * cis (elems ang idx))\<rparr>
      else Inl RuntimeError)"

definition transpose_t :: "int \<Rightarrow> int \<Rightarrow> 'a tensor \<Rightarrow> py_error + 'a tensor" where
  "transpose_t d0 d1 t =
     bind_err (norm_dim (length (shape t)) d0) (\<lambda>i.
     bind_err (norm_dim (length (shape t)) d1) (\<lambda>j.
       Inr \<lparr>shape = (shape t)[i := shape t ! j, j := shape t ! i],
            elems = (\<lambda>idx. elems t (idx[i := idx ! j, j := idx ! i]))\<rparr>))"

text \<open>
  \<open>torch.chunk\<close>: pieces of \<open>ceil(n / chunks)\<close> entries along the dimension, the last one
  shorter when \<open>n\<close> is not a multiple; fewer pieces than asked for when they run out; and
  \<open>chunks\<close> empty pieces when the dimension is empty.
\<close>

definition chunk_sizes :: "nat \<Rightarrow> nat \<Rightarrow> nat list" where
  "chunk_sizes n chunks =
     (let split = (n + chunks - 1) div chunks
      in if split = 0 then replicate chunks 0
         else map (\<lambda>k. min split (n - k * split)) [0..<(n + split - 1) div split])"

definition chunk :: "'a tensor \<Rightarrow> nat \<Rightarrow> int \<Rightarrow> py_error + 'a tensor list" where
  "chunk t chunks d =
     (if shape t = [] \<or> chunks = 0 then Inl RuntimeError
      else bind_err (norm_dim (length (shape t)) d) (\<lambda>i.
        let n = shape t ! i;
            split = (n + chunks - 1) div chunks;
            sizes = chunk_sizes n chunks
        in Inr (map (\<lambda>k. \<lparr>shape = (shape t)[i := sizes ! k],
                            elems = (\<lambda>idx. elems t (idx[i := idx ! i + k * split]))\<rparr>)
                 [0..<length sizes])))"

text \<open>\<open>torch.stack\<close>: the tensors have one shape; a new dimension indexes them.\<close>

definition stack :: "'a tensor list \<Rightarrow> int \<Rightarrow> py_error + 'a tensor" where
  "stack ts d =
     (case ts of
        [] \<Rightarrow> Inl RuntimeError
      | t # rest \<Rightarrow>
          if \<exists>u \<in> set rest. shape u \<noteq> shape t then Inl RuntimeError
          else bind_err (norm_dim (length (shape t) + 1) d) (\<lambda>p.
            Inr \<lparr>shape = take p (shape t) @ [length ts] @ drop p (shape t),
                 elems = (\<lambda>idx. elems (ts ! (idx ! p)) (take p idx @ drop (Suc p) idx))\<rparr>))"

definition view_as_complex :: "real tensor \<Rightarrow> py_error + complex tensor" where
  "view_as_complex t =
     (if shape t = [] \<or> last (shape t) \<noteq> 2 then Inl RuntimeError
      else Inr \<lparr>shape = butlast (shape t),
               elems = (\<lambda>idx. Complex (elems t (idx @ [0])) (elems t (idx @ [1])))\<rparr>)"

definition view_as_real :: "complex tensor \<Rightarrow> real tensor" where
  "view_as_real t =
     \<lparr>shape = shape t @ [2],
      elems = (\<lambda>idx. if last idx = 0 then Re (elems t (butlast idx))
                      else Im (elems t (butlast idx)))\<rparr>"

text \<open>Row-major position of an index, and back.\<close>

fun ravel :: "nat list \<Rightarrow> nat list \<Rightarrow> nat" where
  "ravel (n # sh) (i # idx) = i * prod_list sh + ravel sh idx"
| "ravel _ _ = 0"

fun unravel :: "nat list \<Rightarrow> nat \<Rightarrow> nat list" where
  "unravel [] k = []"
| "unravel (n # sh) k = (k div prod_list sh) # unravel sh (k mod prod_list sh)"

text \<open>
  The target shape of \<open>reshape\<close> and \<open>view\<close>: at most one entry is \<open>-1\<close> and is inferred
  from the number of entries, which the other entries must divide; it cannot be
  inferred when their product is zero.
\<close>

definition infer_size :: "int list \<Rightarrow> nat \<Rightarrow> py_error + nat list" where
  "infer_size target n =
     (if (\<exists>d \<in> set target. d < - 1) \<or> 1 < length (filter (\<lambda>d. d = - 1) target)
      then Inl RuntimeError
      else let newsize = nat (prod_list (filter (\<lambda>d. d \<noteq> - 1) target));
               infer = (- 1 \<in> set target)
           in if n = newsize \<or> (infer \<and> 0 < newsize \<and> n mod newsize = 0)
              then (if infer \<and> newsize = 0 then Inl RuntimeError
                    else Inr (map (\<lambda>d. if d = - 1 then n div newsize else nat d) target))
              else Inl RuntimeError)"

definition reshape :: "int list \<Rightarrow> 'a tensor \<Rightarrow> py_error + 'a tensor" where
  "reshape target t =
     bind_err (infer_size target (numel (shape t))) (\<lambda>sh.
       Inr \<lparr>shape = sh, elems = (\<lambda>idx. elems t (unravel (shape t) (ravel sh idx)))\<rparr>)"

text \<open>
  Broadcasting of two shapes, aligned at the last dimension: two sizes agree when they
  are equal or one of them is 1.
\<close>

fun broadcast_rev :: "nat list \<Rightarrow> nat list \<Rightarrow> py_error + nat list" where
  "broadcast_rev [] ys = Inr ys"
| "broadcast_rev xs [] = Inr xs"
| "broadcast_rev (x # xs) (y # ys) =
     (if x = y \<or> y = 1 then bind_err (broadcast_rev xs ys) (\<lambda>r. Inr (x # r))
      else if x = 1 then bind_err (broadcast_rev xs ys) (\<lambda>r. Inr (y # r))
      else Inl RuntimeError)"

definition broadcast_shapes :: "nat list \<Rightarrow> nat list \<Rightarrow> py_error + nat list" where
  "broadcast_shapes a b = bind_err (broadcast_rev (rev a) (rev b)) (\<lambda>r. Inr (rev r))"

text \<open>The index of an operand of shape \<open>sh\<close> that an index of the broadcast result reads.\<close>

definition bidx :: "nat list \<Rightarrow> nat list \<Rightarrow> nat list" where
  "bidx sh idx = map2 (\<lambda>n i. if n = 1 then 0 else i) sh (drop (length idx - length sh) idx)"

definition binop ::
  "('a \<Rightarrow> 'b \<Rightarrow> 'c) \<Rightarrow> ('a, 'y) tensor_scheme \<Rightarrow> ('b, 'z) tensor_scheme \<Rightarrow> py_error + 'c tensor" where
  "binop f a b =
     bind_err (broadcast_shapes (shape a) (shape b)) (\<lambda>sh.
       Inr \<lparr>shape = sh,
            elems = (\<lambda>idx. f (elems a (bidx (shape a) idx)) (elems b (bidx (shape b) idx)))\<rparr>)"

text \<open>\<open>torch.cat\<close>: the shapes agree outside the dimension, whose sizes add up.\<close>

definition cat2 :: "nat \<Rightarrow> 'a tensor \<Rightarrow> 'a tensor \<Rightarrow> py_error + 'a tensor" where
  "cat2 i a b =
     (if length (shape a) = length (shape b) \<and> (shape a)[i := 0] = (shape b)[i := 0]
      then Inr \<lparr>shape = (shape a)[i := shape a ! i + shape b ! i],
               elems = (\<lambda>idx. if idx ! i < shape a ! i then elems a idx
                               else elems b (idx[i := idx ! i - shape a ! i]))\<rparr>
      else Inl RuntimeError)"

fun cat_from :: "nat \<Rightarrow> 'a tensor \<Rightarrow> 'a tensor list \<Rightarrow> py_error + 'a tensor" where
  "cat_from i acc [] = Inr acc"
| "cat_from i acc (t # ts) = bind_err (cat2 i acc t) (\<lambda>acc'. cat_from i acc' ts)"

definition cat :: "'a tensor list \<Rightarrow> int \<Rightarrow> py_error + 'a tensor" where
  "cat ts d =
     (case ts of
        [] \<Rightarrow> Inl RuntimeError
      | t # rest \<Rightarrow> bind_err (norm_dim (length (shape t)) d) (\<lambda>i. cat_from i t rest))"

text \<open>
  \<open>t[ix]\<close> with an integer tensor \<open>ix\<close>: the rows of \<open>t\<close> at the positions in \<open>ix\<close>, a
  new tensor. A negative position counts from the end; a position outside the first
  dimension raises.
\<close>

definition index_rows :: "'a tensor \<Rightarrow> (int, 'z) tensor_scheme \<Rightarrow> py_error + 'a tensor" where
  "index_rows t ix =
     (case shape t of
        [] \<Rightarrow> Inl IndexError
      | n # sh \<Rightarrow>
          if \<exists>idx \<in> set (indices (shape ix)). \<not> (- int n \<le> elems ix idx \<and> elems ix idx < int n)
          then Inl IndexError
          else Inr \<lparr>shape = shape ix @ sh,
                    elems = (\<lambda>idx. let p = elems ix (take (length (shape ix)) idx)
                                    in elems t (nat (if p < 0 then p + int n else p)
                                                # drop (length (shape ix)) idx))\<rparr>)"

subsection \<open>Integer tensors\<close>

text \<open>
  An integer tensor has one of the signed integer dtypes, and its entries lie in the
  range of that dtype. The result of integer arithmetic is reduced into the range of
  the result's dtype: it wraps around, as two's complement does.
\<close>

datatype int_dtype = TorchInt8 | TorchInt16 | TorchInt32 | TorchInt64

fun dtype_bits :: "int_dtype \<Rightarrow> nat" where
  "dtype_bits TorchInt8 = 8"
| "dtype_bits TorchInt16 = 16"
| "dtype_bits TorchInt32 = 32"
| "dtype_bits TorchInt64 = 64"

definition in_dtype_range :: "int_dtype \<Rightarrow> int \<Rightarrow> bool" where
  "in_dtype_range d v = (- (2 ^ (dtype_bits d - 1)) \<le> v \<and> v < 2 ^ (dtype_bits d - 1))"

definition wrap_int :: "int_dtype \<Rightarrow> int \<Rightarrow> int" where
  "wrap_int d v = (v + 2 ^ (dtype_bits d - 1)) mod 2 ^ dtype_bits d - 2 ^ (dtype_bits d - 1)"

record int_tensor = "int tensor" +
  dtype :: int_dtype

text \<open>
  The dtype of the result of an operation on two integer tensors: the wider of the two
  dtypes, but a tensor of no dimension does not widen a tensor that has dimensions.
\<close>

definition result_dtype :: "int_tensor \<Rightarrow> int_tensor \<Rightarrow> int_dtype" where
  "result_dtype a b =
     (if shape a = [] \<and> shape b \<noteq> [] then dtype b
      else if shape b = [] \<and> shape a \<noteq> [] then dtype a
      else if dtype_bits (dtype a) \<le> dtype_bits (dtype b) then dtype b
      else dtype a)"

text \<open>\<open>a + b\<close> for two integer tensors: broadcast, added, and wrapped at the result's dtype.\<close>

definition add_int :: "int_tensor \<Rightarrow> int_tensor \<Rightarrow> py_error + int_tensor" where
  "add_int a b =
     bind_err (binop (+) a b) (\<lambda>sum.
       Inr \<lparr>shape = shape sum,
            elems = (\<lambda>idx. wrap_int (result_dtype a b) (elems sum idx)),
            dtype = result_dtype a b\<rparr>)"

text \<open>
  \<open>t % c\<close> for an integer tensor and a Python integer: the integer must fit in 64 bits
  and is converted to the dtype of the tensor, wrapping; the remainder has the sign of
  the divisor, as Python's; a zero divisor raises as soon as there is an entry to
  divide. The result has the dtype of the tensor.
\<close>

definition remainder_scalar :: "int_tensor \<Rightarrow> int \<Rightarrow> py_error + int_tensor" where
  "remainder_scalar t c =
     (if \<not> in_dtype_range TorchInt64 c then Inl RuntimeError
      else let c' = wrap_int (dtype t) c
           in if c' = 0 \<and> numel (shape t) \<noteq> 0 then Inl RuntimeError
              else Inr \<lparr>shape = shape t, elems = (\<lambda>idx. elems t idx mod c'), dtype = dtype t\<rparr>)"

text \<open>The Euclidean norm of the vector along the last dimension, at the index \<open>pre\<close>
  of the other dimensions.\<close>

definition vec_norm :: "real tensor \<Rightarrow> nat list \<Rightarrow> real" where
  "vec_norm t pre = sqrt (\<Sum>i<last (shape t). (elems t (pre @ [i]))\<^sup>2)"

section \<open>third\_party/gemma/model.py\<close>

subsection \<open>Rotary embedding\<close>

text \<open>
  \<open>theta ** e\<close> is \<open>theta powr e\<close>, which is the power for a positive base; the
  statements about the table take \<open>theta\<close> positive.
\<close>

definition precompute_freqs_cis :: "int \<Rightarrow> int \<Rightarrow> real \<Rightarrow> py_error + complex tensor" where
  "precompute_freqs_cis dim' end theta =
     bind_err (arange 0 dim' 2) (\<lambda>r.
     bind_err (slice_to (dim' div 2) r) (\<lambda>r.
       let freqs = tmap (\<lambda>p. 1 / p)
                     (tmap (\<lambda>e. theta powr e)
                        (tmap (\<lambda>v. v / real_of_int dim') (tmap real_of_int r)))
       in bind_err (arange 0 end 1) (\<lambda>t.
          bind_err (outer (tmap real_of_int t) freqs) (\<lambda>freqs.
            let freqs_cis = polar (ones_like freqs) freqs
            in freqs_cis))))"

definition reshape_for_broadcast :: "'a tensor \<Rightarrow> 'b tensor \<Rightarrow> py_error + 'a tensor" where
  "reshape_for_broadcast freqs_cis x =
     (let ndim = length (shape x)
      in if \<not> 1 < ndim then Inl AssertionError
         else if ndim < 4 then Inl IndexError
         else if shape freqs_cis \<noteq> [shape x ! 0, shape x ! 2, shape x ! 3] then Inl AssertionError
         else reshape (map (\<lambda>(i, d). if i \<noteq> 1 then int d else 1) (enumerate 0 (shape x)))
                freqs_cis)"

definition apply_rotary_emb :: "real tensor \<Rightarrow> complex tensor \<Rightarrow> py_error + real tensor" where
  "apply_rotary_emb x freqs_cis =
     bind_err (transpose_t 1 2 x) (\<lambda>xt.
     bind_err (chunk xt 2 (- 1)) (\<lambda>halves.
     bind_err (stack halves (- 1)) (\<lambda>st.
     bind_err (view_as_complex st) (\<lambda>x'.
     bind_err (reshape_for_broadcast freqs_cis x') (\<lambda>freqs_cis.
     bind_err (binop (*) x' freqs_cis) (\<lambda>prod.
       let x_out = view_as_real prod
       in bind_err (chunk x_out 2 (- 1)) (\<lambda>parts.
          bind_err (cat parts (- 2)) (\<lambda>x_out.
          bind_err (reshape [int (shape x_out ! 0), int (shape x_out ! 1),
                             int (shape x_out ! 2), - 1] x_out)
            (\<lambda>x_out. transpose_t 1 2 x_out)))))))))"

subsection \<open>Configuration, environment and the classes of jetstream\_pt.layers\<close>

text \<open>
  \<open>GemmaConfig\<close> (\<open>config.py\<close>) and the environment (\<open>environment.py\<close>) are declared
  outside the two source files: the records hold the attributes that the source reads.
  \<open>rope_theta\<close> is optional, since the model reads it with \<open>getattr(config, "rope_theta",
  10000)\<close>.
\<close>

record GemmaConfig =
  vocab_size :: int
  max_position_embeddings :: int
  num_hidden_layers :: int
  num_attention_heads :: int
  num_key_value_heads :: int
  hidden_size :: int
  intermediate_size :: int
  head_dim :: int
  rms_norm_eps :: real
  device :: string
  rope_theta :: "real option"

record QuantizationConfig =
  enable_weight_quantization :: bool
  enable_kv_quantization :: bool

record JetEngineEnvironment =
  quant_config :: QuantizationConfig
  cache_len :: int
  shard_on_batch :: bool
  device :: string

datatype linear_class = TorchLinear | WeightOnlyPerChannelQuantizedLinear

datatype kernel_class = AttentionKernel | Int8KVAttentionKernel

datatype embedding_class = TorchEmbedding | Int8Embedding

text \<open>
  The constructors of the linear layers, the attention kernels and the embeddings
  (\<open>torch.nn\<close> and \<open>jetstream_pt.layers\<close>) are parameters: each takes the class, the
  constructor's arguments, and returns the module or raises.
\<close>

record ('l, 'k, 'e) layers_lib =
  new_Linear :: "linear_class \<Rightarrow> int \<Rightarrow> int \<Rightarrow> string \<Rightarrow> QuantizationConfig option
                   \<Rightarrow> py_error + 'l"
  new_Kernel :: "kernel_class \<Rightarrow> JetEngineEnvironment \<Rightarrow> int \<Rightarrow> py_error + 'k"
  new_Embedding :: "embedding_class \<Rightarrow> int \<Rightarrow> int \<Rightarrow> string \<Rightarrow> py_error + 'e"

text \<open>
  Python's \<open>n ** -0.5\<close> and \<open>n ** 0.5\<close> for an integer \<open>n\<close>: a zero base with a negative
  exponent raises, and a negative base gives the principal complex value.
\<close>

definition pow_neg_half :: "int \<Rightarrow> py_error + complex" where
  "pow_neg_half n =
     (if n = 0 then Inl ZeroDivisionError
      else if 0 < n then Inr (complex_of_real (1 / sqrt (real_of_int n)))
      else Inr (Complex 0 (- (1 / sqrt (real_of_int (- n))))))"

definition pow_half :: "int \<Rightarrow> complex" where
  "pow_half n =
     (if 0 \<le> n then complex_of_real (sqrt (real_of_int n))
      else Complex 0 (sqrt (real_of_int (- n))))"

subsection \<open>GemmaAttention.\_\_init\_\_\<close>

text \<open>
  The constructor, statement by statement. \<open>hf_name\<close> and \<open>annotate_sharding\<close> are methods
  of \<open>ModuleBase\<close> (\<open>model_base.py\<close>): the module keeps the pairs they are called with.
\<close>

record ('l, 'k) GemmaAttention =
  env :: JetEngineEnvironment
  num_heads :: int
  num_kv_heads :: int
  num_queries_per_kv :: int
  hidden_size :: int
  head_dim :: int
  q_size :: int
  kv_size :: int
  scaling :: complex
  wq :: 'l
  wk :: 'l
  wv :: 'l
  o_proj :: 'l
  hf_names :: "(string \<times> string) list"
  shardings :: "(string \<times> int) list"
  attention_kernel :: 'k

definition GemmaAttention_init ::
  "('l, 'k, 'e) layers_lib \<Rightarrow> int \<Rightarrow> int \<Rightarrow> int \<Rightarrow> int \<Rightarrow> string \<Rightarrow> JetEngineEnvironment \<Rightarrow> int
     \<Rightarrow> py_error + ('l, 'k) GemmaAttention" where
  "GemmaAttention_init lib hidden_sz n_heads n_kv_heads head_dm dev environment layer_id =
     (if n_kv_heads = 0 then Inl ZeroDivisionError
      else if n_heads mod n_kv_heads \<noteq> 0 then Inl AssertionError
      else
        let queries_per_kv = n_heads div n_kv_heads;
            q_sz = n_heads * head_dm;
            kv_sz = n_kv_heads * head_dm
        in bind_err (pow_neg_half head_dm) (\<lambda>scale.
           let Linear = (if enable_weight_quantization (quant_config environment)
                         then WeightOnlyPerChannelQuantizedLinear else TorchLinear);
               linear_kwargs = (if Linear \<noteq> TorchLinear then Some (quant_config environment)
                                else None)
           in bind_err (new_Linear lib Linear hidden_sz (n_heads * head_dm) dev linear_kwargs) (\<lambda>q.
              bind_err (new_Linear lib Linear hidden_sz (n_kv_heads * head_dm) dev linear_kwargs) (\<lambda>k.
              bind_err (new_Linear lib Linear hidden_sz (n_kv_heads * head_dm) dev linear_kwargs) (\<lambda>v.
              bind_err (new_Linear lib Linear (n_heads * head_dm) hidden_sz dev linear_kwargs) (\<lambda>oproj.
                let names = [(''wk'', ''k_proj''), (''wv'', ''v_proj''), (''wq'', ''q_proj'')];
                    shards = [(''wk.weight'', 0), (''wv.weight'', 0), (''wq.weight'', 0),
                              (''o_proj.weight'', 1)]
                             @ (if Linear \<noteq> TorchLinear
                                then [(''wk.weight_scaler'', 0), (''wv.weight_scaler'', 0),
                                      (''wq.weight_scaler'', 0), (''o_proj.weight_scaler'', - 1)]
                                else []);
                    Kernel = (if enable_kv_quantization (quant_config environment)
                              then Int8KVAttentionKernel else AttentionKernel)
                in bind_err (new_Kernel lib Kernel environment layer_id) (\<lambda>kernel.
                     Inr \<lparr>env = environment,
                          num_heads = n_heads,
                          num_kv_heads = n_kv_heads,
                          num_queries_per_kv = queries_per_kv,
                          hidden_size = hidden_sz,
                          head_dim = head_dm,
                          q_size = q_sz,
                          kv_size = kv_sz,
                          scaling = scale,
                          wq = q, wk = k, wv = v, o_proj = oproj,
                          hf_names = names,
                          shardings = shards,
                          attention_kernel = kernel\<rparr>)))))))"

text \<open>
  The classes and the keyword arguments that the constructor chooses from the
  quantization configuration: its local variables \<open>Linear\<close>, \<open>linear_kwargs\<close> and \<open>Kernel\<close>.
\<close>

definition chosen_Linear :: "JetEngineEnvironment \<Rightarrow> linear_class" where
  "chosen_Linear environment =
     (if enable_weight_quantization (quant_config environment)
      then WeightOnlyPerChannelQuantizedLinear else TorchLinear)"

definition chosen_linear_kwargs :: "JetEngineEnvironment \<Rightarrow> QuantizationConfig option" where
  "chosen_linear_kwargs environment =
     (if chosen_Linear environment \<noteq> TorchLinear then Some (quant_config environment) else None)"

definition chosen_Kernel :: "JetEngineEnvironment \<Rightarrow> kernel_class" where
  "chosen_Kernel environment =
     (if enable_kv_quantization (quant_config environment)
      then Int8KVAttentionKernel else AttentionKernel)"

subsection \<open>RMSNorm, GemmaMLP and GemmaDecoderLayer\<close>

record RMSNorm =
  eps :: real
  add_unit_offset :: bool
  weight :: "real tensor"
  weight_device :: string

definition RMSNorm_init :: "int \<Rightarrow> real \<Rightarrow> bool \<Rightarrow> string \<Rightarrow> py_error + RMSNorm" where
  "RMSNorm_init dim' epsilon unit_offset dev =
     bind_err (zeros dim') (\<lambda>w.
       Inr \<lparr>eps = epsilon, add_unit_offset = unit_offset, weight = w, weight_device = dev\<rparr>)"

record 'l GemmaMLP =
  gate_proj :: 'l
  up_proj :: 'l
  down_proj :: 'l
  mlp_shardings :: "(string \<times> int) list"

definition GemmaMLP_init ::
  "('l, 'k, 'e) layers_lib \<Rightarrow> int \<Rightarrow> int \<Rightarrow> string \<Rightarrow> JetEngineEnvironment \<Rightarrow> py_error + 'l GemmaMLP" where
  "GemmaMLP_init lib hidden_sz intermediate_sz dev environment =
     (let Linear = (if enable_weight_quantization (quant_config environment)
                    then WeightOnlyPerChannelQuantizedLinear else TorchLinear);
          linear_kwargs = (if Linear \<noteq> TorchLinear then Some (quant_config environment) else None)
      in bind_err (new_Linear lib Linear hidden_sz intermediate_sz dev linear_kwargs) (\<lambda>gate.
         bind_err (new_Linear lib Linear hidden_sz intermediate_sz dev linear_kwargs) (\<lambda>up.
         bind_err (new_Linear lib Linear intermediate_sz hidden_sz dev linear_kwargs) (\<lambda>down.
           Inr \<lparr>gate_proj = gate, up_proj = up, down_proj = down,
                mlp_shardings =
                  [(''gate_proj.weight'', 0), (''up_proj.weight'', 0), (''down_proj.weight'', 1),
                   (''gate_proj.bias'', 0), (''up_proj.bias'', 0), (''down_proj.bias'', - 1)]
                  @ (if Linear \<noteq> TorchLinear
                     then [(''gate_proj.weight_scaler'', 0), (''up_proj.weight_scaler'', 0),
                           (''down_proj.weight_scaler'', - 1)]
                     else [])\<rparr>))))"

record ('l, 'k) GemmaDecoderLayer =
  self_attn :: "('l, 'k) GemmaAttention"
  mlp :: "'l GemmaMLP"
  input_layernorm :: RMSNorm
  post_attention_layernorm :: RMSNorm

definition GemmaDecoderLayer_init ::
  "('l, 'k, 'e) layers_lib \<Rightarrow> GemmaConfig \<Rightarrow> JetEngineEnvironment \<Rightarrow> int
     \<Rightarrow> py_error + ('l, 'k) GemmaDecoderLayer" where
  "GemmaDecoderLayer_init lib config environment layer_id =
     bind_err (GemmaAttention_init lib (GemmaConfig.hidden_size config)
                 (num_attention_heads config) (num_key_value_heads config)
                 (GemmaConfig.head_dim config) (GemmaConfig.device config) environment layer_id)
       (\<lambda>attn.
     bind_err (GemmaMLP_init lib (GemmaConfig.hidden_size config) (intermediate_size config)
                 (GemmaConfig.device config) environment) (\<lambda>m.
     bind_err (RMSNorm_init (GemmaConfig.hidden_size config) (rms_norm_eps config) True
                 (GemmaConfig.device config)) (\<lambda>n1.
     bind_err (RMSNorm_init (GemmaConfig.hidden_size config) (rms_norm_eps config) True
                 (GemmaConfig.device config)) (\<lambda>n2.
       Inr \<lparr>self_attn = attn, mlp = m, input_layernorm = n1,
            post_attention_layernorm = n2\<rparr>))))"

text \<open>
  The arguments of one call of a decoder layer. The fields \<open>arg_start\<close> and \<open>arg_end\<close> are
  the keyword arguments \<open>start\<close> and \<open>end\<close>, \<open>None\<close> when absent.
\<close>

record ('h, 'c) layer_call =
  arg_hidden_states :: 'h
  arg_freqs_cis :: "complex tensor"
  arg_cache :: 'c
  arg_mask :: "real tensor"
  arg_start :: "int_tensor option"
  arg_end :: "int_tensor option"
  arg_ragged_batch_index :: "int tensor option"
  arg_ragged_block_index :: "int tensor option"

text \<open>
  What the sub-modules compute when called: the arithmetic of the normalization, of the
  attention (its projections and its kernel) and of the feed-forward, of the embedding
  and of the final product with the embedding weights are parameters, since the layer
  and the model only compose them. None of the \<open>forward\<close> methods of the source assigns an
  attribute of its module, so a call is a function of the module and its arguments; the
  attention kernel writes the cache it is given, so the attention returns the cache as
  well. The activations are of a type \<open>'h\<close> with the tensor addition and multiplication.
\<close>

record ('h, 'c, 'l, 'k, 'e) forward_sem =
  rms_norm_forward :: "RMSNorm \<Rightarrow> 'h \<Rightarrow> 'h"
  attention_forward :: "('l, 'k) GemmaAttention \<Rightarrow> ('h, 'c) layer_call \<Rightarrow> 'h \<times> 'c"
  mlp_forward :: "'l GemmaMLP \<Rightarrow> 'h \<Rightarrow> 'h"
  embedder_forward :: "'e \<Rightarrow> int tensor \<Rightarrow> 'h"
  mul_scalar :: "'h \<Rightarrow> complex \<Rightarrow> 'h"
  embedder_weight :: "'e \<Rightarrow> 'h"
  embedder_weight_scaler :: "'e \<Rightarrow> 'h option"
  matmul_transposed :: "'h \<Rightarrow> 'h \<Rightarrow> 'h"

definition GemmaDecoderLayer_forward ::
  "('h::plus, 'c, 'l, 'k, 'e) forward_sem \<Rightarrow> ('l, 'k) GemmaDecoderLayer \<Rightarrow> ('h, 'c) layer_call
     \<Rightarrow> 'h \<times> 'c" where
  "GemmaDecoderLayer_forward sem self a =
     (let residual = arg_hidden_states a;
          hidden_states = rms_norm_forward sem (input_layernorm self) (arg_hidden_states a);
          (hidden_states, cache) =
            attention_forward sem (self_attn self) (a\<lparr>arg_hidden_states := hidden_states\<rparr>);
          hidden_states = residual + hidden_states;
          residual = hidden_states;
          hidden_states = rms_norm_forward sem (post_attention_layernorm self) hidden_states;
          hidden_states = mlp_forward sem (mlp self) hidden_states;
          hidden_states = residual + hidden_states
      in (hidden_states, cache))"

subsection \<open>GemmaModel\<close>

record ('l, 'k, 'e) GemmaModel =
  config :: GemmaConfig
  model_vocab_size :: int
  model_env :: JetEngineEnvironment
  layers :: "('l, 'k) GemmaDecoderLayer list"
  final_norm :: RMSNorm
  embedder :: 'e
  model_hf_names :: "(string \<times> string) list"
  freqs_cis :: "complex tensor"

text \<open>The loop \<open>for layer_id in range(config.num_hidden_layers)\<close>, over the layer ids.\<close>

fun build_layers ::
  "('l, 'k, 'e) layers_lib \<Rightarrow> GemmaConfig \<Rightarrow> JetEngineEnvironment \<Rightarrow> int list
     \<Rightarrow> py_error + ('l, 'k) GemmaDecoderLayer list" where
  "build_layers lib cfg environment [] = Inr []"
| "build_layers lib cfg environment (layer_id # ids) =
     bind_err (GemmaDecoderLayer_init lib cfg environment layer_id) (\<lambda>layer.
     bind_err (build_layers lib cfg environment ids) (\<lambda>rest. Inr (layer # rest)))"

definition GemmaModel_init ::
  "('l, 'k, 'e) layers_lib \<Rightarrow> GemmaConfig \<Rightarrow> JetEngineEnvironment
     \<Rightarrow> py_error + ('l, 'k, 'e) GemmaModel" where
  "GemmaModel_init lib cfg environment =
     bind_err (build_layers lib cfg environment
                 (map int [0..<nat (num_hidden_layers cfg)])) (\<lambda>ls.
     bind_err (RMSNorm_init (GemmaConfig.hidden_size cfg) (rms_norm_eps cfg) True
                 (GemmaConfig.device cfg)) (\<lambda>n.
       let Embedding = (if enable_weight_quantization (quant_config environment)
                        then Int8Embedding else TorchEmbedding)
       in bind_err (new_Embedding lib Embedding (vocab_size cfg) (GemmaConfig.hidden_size cfg)
                      (GemmaConfig.device cfg)) (\<lambda>emb.
          let names = [(''embedder'', ''model.embed_tokens''), (''layers'', ''model.layers''),
                       (''norm'', ''model.norm'')];
              theta = (case rope_theta cfg of None \<Rightarrow> 10000 | Some t \<Rightarrow> t)
          in bind_err (precompute_freqs_cis (GemmaConfig.head_dim cfg)
                         (max_position_embeddings cfg * 2) theta) (\<lambda>table.
               Inr \<lparr>config = cfg,
                    model_vocab_size = vocab_size cfg,
                    model_env = environment,
                    layers = ls,
                    final_norm = n,
                    embedder = emb,
                    model_hf_names = names,
                    freqs_cis = table\<rparr>))))"

text \<open>The arguments of \<open>GemmaModel.forward\<close> other than the caches.\<close>

record forward_args =
  tokens :: "int tensor"
  input_pos :: int_tensor
  attn_mask :: "real tensor"
  start :: "int_tensor option"
  ragged_batch_index :: "int tensor option"
  ragged_block_index :: "int tensor option"

text \<open>
  The result of a call: the module after the call, the caches after the call, the
  layer calls that were made, in order, and the logits or the exception.
\<close>

record ('h, 'c, 'l, 'k, 'e) forward_result =
  self_after :: "('l, 'k, 'e) GemmaModel"
  caches_after :: "'c list"
  layer_calls :: "('h, 'c) layer_call list"
  outcome :: "py_error + 'h"

text \<open>
  The loop \<open>for i in range(len(self.layers))\<close>, from layer \<open>i\<close> on: \<open>caches[i]\<close> raises
  when the list is too short; the layer's attention writes that cache.
\<close>

fun run_layers ::
  "('h::plus, 'c, 'l, 'k, 'e) forward_sem \<Rightarrow> ('l, 'k) GemmaDecoderLayer list \<Rightarrow> nat \<Rightarrow> 'h
     \<Rightarrow> complex tensor \<Rightarrow> forward_args \<Rightarrow> int_tensor option \<Rightarrow> 'c list
     \<Rightarrow> ('h, 'c) layer_call list \<times> 'c list \<times> (py_error + 'h)" where
  "run_layers sem [] i hidden_states fc a end caches = ([], caches, Inr hidden_states)"
| "run_layers sem (layer # rest) i hidden_states fc a end caches =
     (if i < length caches then
        let call = \<lparr>arg_hidden_states = hidden_states,
                    arg_freqs_cis = fc,
                    arg_cache = caches ! i,
                    arg_mask = attn_mask a,
                    arg_start = start a,
                    arg_end = end,
                    arg_ragged_batch_index = ragged_batch_index a,
                    arg_ragged_block_index = ragged_block_index a\<rparr>;
            (hidden_states, cache) = GemmaDecoderLayer_forward sem layer call;
            (calls, caches', result) =
              run_layers sem rest (Suc i) hidden_states fc a end (caches[i := cache])
        in (call # calls, caches', result)
      else ([], caches, Inl IndexError))"

text \<open>\<open>end = None if start is None else (start + input_pos) % self.env.cache_len\<close>\<close>

definition end_cursor :: "int_tensor option \<Rightarrow> int_tensor \<Rightarrow> int \<Rightarrow> py_error + int_tensor option" where
  "end_cursor st pos clen =
     (case st of
        None \<Rightarrow> Inr None
      | Some s \<Rightarrow>
          bind_err (add_int s pos) (\<lambda>sum.
          bind_err (remainder_scalar sum clen) (\<lambda>e. Inr (Some e))))"

definition GemmaModel_forward ::
  "('h::{plus,times}, 'c, 'l, 'k, 'e) forward_sem \<Rightarrow> ('l, 'k, 'e) GemmaModel \<Rightarrow> forward_args
     \<Rightarrow> 'c list \<Rightarrow> ('h, 'c, 'l, 'k, 'e) forward_result" where
  "GemmaModel_forward sem self a caches =
     (let failed = (\<lambda>e. \<lparr>self_after = self, caches_after = caches, layer_calls = [],
                          outcome = Inl e\<rparr>)
      in case shape (tokens a) of
           [bsz, seqlen] \<Rightarrow>
             (case bind_err (index_rows (freqs_cis self) (input_pos a))
                     (reshape [int bsz, int seqlen, - 1]) of
                Inl e \<Rightarrow> failed e
              | Inr fc \<Rightarrow>
                  let hidden_states = embedder_forward sem (embedder self) (tokens a);
                      hidden_states =
                        mul_scalar sem hidden_states
                          (pow_half (GemmaConfig.hidden_size (config self)))
                  in (case end_cursor (start a) (input_pos a) (cache_len (model_env self)) of
                       Inl e \<Rightarrow> failed e
                     | Inr end \<Rightarrow>
                         let (calls, caches', result) =
                               run_layers sem (layers self) 0 hidden_states fc a end caches
                         in \<lparr>self_after = self, caches_after = caches', layer_calls = calls,
                             outcome =
                               bind_err result (\<lambda>hidden_states.
                                 let hidden_states = rms_norm_forward sem (final_norm self) hidden_states;
                                     w = embedder_weight sem (embedder self);
                                     w = (case embedder_weight_scaler sem (embedder self) of
                                            None \<Rightarrow> w | Some sc \<Rightarrow> w * sc);
                                     logits = matmul_transposed sem hidden_states w
                                 in Inr logits)\<rparr>))
         | _ \<Rightarrow> failed ValueError)"

text \<open>A sequence of calls of \<open>forward\<close> on one model, each on the caches the previous left.\<close>

fun forward_calls ::
  "('h::{plus,times}, 'c, 'l, 'k, 'e) forward_sem \<Rightarrow> ('l, 'k, 'e) GemmaModel \<Rightarrow> 'c list
     \<Rightarrow> forward_args list \<Rightarrow> ('l, 'k, 'e) GemmaModel \<times> 'c list" where
  "forward_calls sem self caches [] = (self, caches)"
| "forward_calls sem self caches (a # rest) =
     (let r = GemmaModel_forward sem self a caches
      in forward_calls sem (self_after r) (caches_after r) rest)"



section \<open>fetch\_models.py\<close>

subsection \<open>Flags, model table and directories\<close>

text \<open>The absl flags the module defines, with their defaults in \<open>default_FLAGS\<close>.\<close>

record FLAGS =
  working_dir :: string
  hf_token :: string
  internal_use_random_weights :: bool
  internal_use_tiny_model :: bool
  override_max_cache_length :: int

definition default_FLAGS :: FLAGS where
  "default_FLAGS = \<lparr>working_dir = ''checkpoints'', hf_token = '''',
     internal_use_random_weights = False, internal_use_tiny_model = False,
     override_max_cache_length = - 1\<rparr>"

datatype model_class = LlamaTransformer | MixtralTransformer | GemmaModelClass

record ModelInfo =
  model_class :: model_class
  num_layers :: int
  num_kv_heads :: int
  head_dim :: int
  n_reps :: int

definition mk_ModelInfo :: "model_class \<Rightarrow> int \<Rightarrow> int \<Rightarrow> int \<Rightarrow> int \<Rightarrow> ModelInfo" where
  "mk_ModelInfo c l k d r =
     \<lparr>model_class = c, num_layers = l, num_kv_heads = k, head_dim = d, n_reps = r\<rparr>"

definition llama2_7 :: ModelInfo where "llama2_7 = mk_ModelInfo LlamaTransformer 32 32 128 1"
definition llama2_13 :: ModelInfo where "llama2_13 = mk_ModelInfo LlamaTransformer 40 40 128 1"
definition llama2_70 :: ModelInfo where "llama2_70 = mk_ModelInfo LlamaTransformer 80 8 128 8"
definition llama3_8 :: ModelInfo where "llama3_8 = mk_ModelInfo LlamaTransformer 32 8 128 4"
definition llama3_70 :: ModelInfo where "llama3_70 = llama2_70"
definition llama3_1_8b :: ModelInfo where "llama3_1_8b = llama3_8"
definition llama3_2_1b :: ModelInfo where "llama3_2_1b = mk_ModelInfo LlamaTransformer 16 8 64 4"
definition llama3_3_70b :: ModelInfo where "llama3_3_70b = llama2_70"
definition mixtral_87 :: ModelInfo where "mixtral_87 = mk_ModelInfo MixtralTransformer 32 8 128 4"
definition gemma_2b :: ModelInfo where "gemma_2b = mk_ModelInfo GemmaModelClass 18 1 256 8"
definition gemma_7b :: ModelInfo where "gemma_7b = mk_ModelInfo GemmaModelClass 28 16 256 1"

text \<open>The dictionary literal, in the order of the source; no key occurs twice.\<close>

definition model_id_to_class_items :: "(string \<times> ModelInfo) list" where
  "model_id_to_class_items =
    [(''meta-llama/Llama-2-7b-chat-hf'', llama2_7),
     (''meta-llama/Llama-2-7b-hf'', llama2_7),
     (''meta-llama/Llama-2-13b-chat-hf'', llama2_13),
     (''meta-llama/Llama-2-13b-hf'', llama2_13),
     (''meta-llama/Llama-2-70b-hf'', llama2_70),
     (''meta-llama/Llama-2-70b-chat-hf'', llama2_70),
     (''meta-llama/Meta-Llama-3-8B'', llama3_8),
     (''meta-llama/Meta-Llama-3-8B-Instruct'', llama3_8),
     (''meta-llama/Meta-Llama-3-70B'', llama3_70),
     (''meta-llama/Meta-Llama-3-70B-Instruct'', llama3_70),
     (''meta-llama/Llama-3.1-8B'', llama3_1_8b),
     (''meta-llama/Llama-3.1-8B-Instruct'', llama3_1_8b),
     (''meta-llama/Llama-3.2-1B'', llama3_2_1b),
     (''meta-llama/Llama-3.2-1B-Instruct'', llama3_2_1b),
     (''meta-llama/Llama-3.3-70B'', llama3_3_70b),
     (''meta-llama/Llama-3.3-70B-Instruct'', llama3_3_70b),
     (''google/gemma-2b'', gemma_2b),
     (''google/gemma-2b-it'', gemma_2b),
     (''google/gemma-7b'', gemma_7b),
     (''google/gemma-7b-it'', gemma_7b),
     (''mistralai/Mixtral-8x7B-v0.1'', mixtral_87),
     (''mistralai/Mixtral-8x7B-Instruct-v0.1'', mixtral_87),
     (''deepseek-ai/DeepSeek-R1-Distill-Llama-8B'', llama3_1_8b),
     (''deepseek-ai/DeepSeek-R1-Distill-Llama-70B'', llama3_3_70b)]"

text \<open>\<open>model_id_to_class.get(repo_id)\<close>: \<open>None\<close> for a key that is absent.\<close>

definition model_id_to_class :: "string \<rightharpoonup> ModelInfo" where
  "model_id_to_class = map_of model_id_to_class_items"

text \<open>
  \<open>os.path.join\<close> of two components on a POSIX system: an absolute second component
  replaces the first, otherwise the two are joined by one separator.
\<close>

definition path_join :: "string \<Rightarrow> string \<Rightarrow> string" where
  "path_join a b =
     (if b \<noteq> [] \<and> hd b = CHR ''/'' then b
      else if a = [] \<or> last a = CHR ''/'' then a @ b
      else a @ ''/'' @ b)"

definition model_dir :: "FLAGS \<Rightarrow> string \<Rightarrow> string" where
  "model_dir flags repo_id = path_join (working_dir flags) repo_id"

definition hf_dir :: "FLAGS \<Rightarrow> string \<Rightarrow> string" where
  "hf_dir flags repo_id = path_join (model_dir flags repo_id) ''hf_original''"

definition int_dir :: "FLAGS \<Rightarrow> string \<Rightarrow> string" where
  "int_dir flags repo_id = path_join (model_dir flags repo_id) ''converted_int8''"

subsection \<open>construct\_env\_data\_from\_model\_id\<close>

text \<open>
  The fields of \<open>JetEngineEnvironmentData\<close> that this module writes. The dataclass itself
  is declared in \<open>jetstream_pt/environment.py\<close>; its constructor starts from the declared
  defaults, which are the parameter \<open>defaults\<close> below, and overrides the keyword arguments.
\<close>

record JetEngineEnvironmentData =
  tokenizer_path :: string
  checkpoint_path :: string
  checkpoint_format :: string
  batch_size :: int
  max_decode_length :: int
  max_input_sequence_length :: int
  cache_sequence_length :: int
  bf16_enable :: bool
  sharding_config_path :: string
  shard_on_batch :: bool
  n_reps :: int
  cache_shape :: "int \<times> int \<times> int \<times> int"
  num_layers :: int

definition construct_env_data_from_model_id ::
  "FLAGS \<Rightarrow> JetEngineEnvironmentData \<Rightarrow> string \<Rightarrow> int \<Rightarrow> int \<Rightarrow> int
     \<Rightarrow> py_error + JetEngineEnvironmentData" where
  "construct_env_data_from_model_id flags defaults repo_id batch_sz input_length output_length =
     (let tokenizer = path_join (hf_dir flags repo_id) ''tokenizer.model'';
          checkpoint = hf_dir flags repo_id;
          checkpoint_fmt = ''safetensors'';
          shard = False;
          max_cache_length =
            (if override_max_cache_length flags > 0 then override_max_cache_length flags
             else input_length + output_length)
      in case model_id_to_class repo_id of
           None \<Rightarrow> Inl AttributeError
         | Some model_info \<Rightarrow>
             (let env_data = defaults
                    \<lparr>tokenizer_path := tokenizer,
                     checkpoint_path := checkpoint,
                     checkpoint_format := checkpoint_fmt,
                     batch_size := batch_sz,
                     max_decode_length := output_length,
                     max_input_sequence_length := input_length,
                     cache_sequence_length := max_cache_length,
                     bf16_enable := True,
                     sharding_config_path := '''',
                     shard_on_batch := shard,
                     JetEngineEnvironmentData.n_reps := ModelInfo.n_reps model_info\<rparr>;
                  env_data = env_data
                    \<lparr>cache_shape :=
                       (batch_sz, ModelInfo.num_kv_heads model_info, max_cache_length,
                        ModelInfo.head_dim model_info)\<rparr>;
                  env_data = env_data
                    \<lparr>JetEngineEnvironmentData.num_layers := ModelInfo.num_layers model_info\<rparr>
              in Inr env_data))"

text \<open>A concrete instance of the dataclass, for evaluating the function on examples.\<close>

definition blank_env_data :: JetEngineEnvironmentData where
  "blank_env_data =
     \<lparr>tokenizer_path = '''', checkpoint_path = '''', checkpoint_format = '''', batch_size = 0,
      max_decode_length = 0, max_input_sequence_length = 0, cache_sequence_length = 0,
      bf16_enable = False, sharding_config_path = '''', shard_on_batch = False, n_reps = 0,
      cache_shape = (0, 0, 0, 0), num_layers = 0\<rparr>"

subsection \<open>\_load\_weights\<close>

text \<open>
  A tensor of a checkpoint: its dtype and its stored values, of a type \<open>'v\<close>. The file
  system and the safetensors reader are parameters: \<open>glob\<close> lists the paths that match a
  pattern, \<open>safe_open\<close> gives the tensors of a file by key, in the order of \<open>f.keys()\<close>,
  or nothing for a file it cannot read; \<open>cast\<close> rounds stored values to a dtype.
\<close>

datatype dtype = Float32 | Float16 | BFloat16 | Int8







subsection \<open>instantiate\_model\_from\_repo\_id\<close>








section \<open>Example inputs\<close>

text \<open>Concrete inputs on which the statements below are evaluated.\<close>

text \<open>One vector \<open>(3, 4)\<close> and the rotation by a quarter turn.\<close>

definition rot_x :: "real tensor" where
  "rot_x = \<lparr>shape = [1, 1, 1, 2], elems = (\<lambda>idx. if idx ! 3 = 0 then 3 else 4)\<rparr>"

definition rot_f :: "complex tensor" where
  "rot_f = \<lparr>shape = [1, 1, 1], elems = (\<lambda>idx. \<i>)\<rparr>"

text \<open>
  A library whose constructors return modules without content, an environment without
  quantization and a cache of four positions, a small configuration, and sub-modules
  that compute on integers in place of activations.
\<close>

definition ex_lib :: "(unit, unit, unit) layers_lib" where
  "ex_lib = \<lparr>new_Linear = (\<lambda>c i outp d kw. Inr ()),
             new_Kernel = (\<lambda>c e i. Inr ()),
             new_Embedding = (\<lambda>c v h d. Inr ())\<rparr>"

text \<open>A library whose linear layers refuse a negative number of features.\<close>

definition strict_lib :: "(int \<times> int, unit, unit) layers_lib" where
  "strict_lib = \<lparr>new_Linear = (\<lambda>c i outp d kw. if i < 0 \<or> outp < 0 then Inl RuntimeError
                                               else Inr (i, outp)),
                 new_Kernel = (\<lambda>c e i. Inr ()),
                 new_Embedding = (\<lambda>c v h d. Inr ())\<rparr>"

definition ex_env :: JetEngineEnvironment where
  "ex_env = \<lparr>quant_config = \<lparr>enable_weight_quantization = False, enable_kv_quantization = False\<rparr>,
             cache_len = 4, shard_on_batch = False, device = ''cpu''\<rparr>"

definition ex_sem :: "(int, int, unit, unit, unit) forward_sem" where
  "ex_sem = \<lparr>rms_norm_forward = (\<lambda>n h. 2 * h),
             attention_forward = (\<lambda>m c. (arg_hidden_states c + 1, arg_cache c + 1)),
             mlp_forward = (\<lambda>m h. 3 * h),
             embedder_forward = (\<lambda>e t. elems t [0, 0]),
             mul_scalar = (\<lambda>h c. h),
             embedder_weight = (\<lambda>e. 1),
             embedder_weight_scaler = (\<lambda>e. None),
             matmul_transposed = (\<lambda>h w. h * w)\<rparr>"

definition ex_cfg :: GemmaConfig where
  "ex_cfg = \<lparr>vocab_size = 16, max_position_embeddings = 4, num_hidden_layers = 1,
             num_attention_heads = 2, num_key_value_heads = 1, hidden_size = 4,
             intermediate_size = 8, head_dim = 2, rms_norm_eps = 0, device = ''cpu'',
             rope_theta = None\<rparr>"

text \<open>A call of a decoder layer on the activation 5 and the cache 0.\<close>

definition ex_call :: "(int, int) layer_call" where
  "ex_call = \<lparr>arg_hidden_states = 5,
              arg_freqs_cis = rot_f,
              arg_cache = 0,
              arg_mask = \<lparr>shape = [], elems = (\<lambda>idx. 0)\<rparr>,
              arg_start = None,
              arg_end = None,
              arg_ragged_batch_index = None,
              arg_ragged_block_index = None\<rparr>"

text \<open>One decoding step for a batch of two slots, at positions 3 and 5, from origins 1 and 2.\<close>

definition ex_args :: forward_args where
  "ex_args = \<lparr>tokens = \<lparr>shape = [2, 1], elems = (\<lambda>idx. 7)\<rparr>,
              input_pos = \<lparr>shape = [2], elems = (\<lambda>idx. if idx = [0] then 3 else 5),
                           dtype = TorchInt64\<rparr>,
              attn_mask = \<lparr>shape = [], elems = (\<lambda>idx. 0)\<rparr>,
              start = Some \<lparr>shape = [2], elems = (\<lambda>idx. if idx = [0] then 1 else 2),
                            dtype = TorchInt64\<rparr>,
              ragged_batch_index = None,
              ragged_block_index = None\<rparr>"

text \<open>
  The same step at positions 1 and 5 from the origin \<open>2\<^sup>6\<^sup>3 - 1\<close>, the largest 64-bit
  integer, in both slots; and an environment with a cache of three positions.
\<close>

definition big_args :: forward_args where
  "big_args = \<lparr>tokens = \<lparr>shape = [2, 1], elems = (\<lambda>idx. 7)\<rparr>,
               input_pos = \<lparr>shape = [2], elems = (\<lambda>idx. if idx = [0] then 1 else 5),
                            dtype = TorchInt64\<rparr>,
               attn_mask = \<lparr>shape = [], elems = (\<lambda>idx. 0)\<rparr>,
               start = Some \<lparr>shape = [2], elems = (\<lambda>idx. 9223372036854775807),
                             dtype = TorchInt64\<rparr>,
               ragged_batch_index = None,
               ragged_block_index = None\<rparr>"

definition env3 :: JetEngineEnvironment where
  "env3 = \<lparr>quant_config = \<lparr>enable_weight_quantization = False, enable_kv_quantization = False\<rparr>,
           cache_len = 3, shard_on_batch = False, device = ''cpu''\<rparr>"



section \<open>Lemmas about tensors\<close>

lemma ravel_less:
  "list_all2 (<) idx sh \<Longrightarrow> ravel sh idx < prod_list sh"
proof (induction idx sh rule: list_all2_induct)
  case Nil
  then show ?case by simp
next
  case (Cons i idx n sh)
  have "i * prod_list sh + ravel sh idx < i * prod_list sh + prod_list sh"
    using Cons.IH by simp
  also have "\<dots> = Suc i * prod_list sh" by simp
  also have "\<dots> \<le> n * prod_list sh"
    using Cons.hyps(1) by (intro mult_le_mono1) simp
  finally show ?case by simp
qed

lemma unravel_ravel:
  "list_all2 (<) idx sh \<Longrightarrow> unravel sh (ravel sh idx) = idx"
proof (induction idx sh rule: list_all2_induct)
  case Nil
  then show ?case by simp
next
  case (Cons i idx n sh)
  have lt: "ravel sh idx < prod_list sh"
    using Cons.hyps(2) by (rule ravel_less)
  then show ?case using Cons.IH by simp
qed

lemma ravel_snoc_one:
  "length idx = length sh \<Longrightarrow> ravel (sh @ [Suc 0]) (idx @ [0]) = ravel sh idx"
  by (induction sh idx rule: ravel.induct) auto

lemma unravel_snoc_one:
  assumes "list_all2 (<) idx sh"
  shows "unravel (sh @ [Suc 0]) (ravel sh idx) = idx @ [0]"
proof -
  have len: "length idx = length sh"
    using assms by (rule list_all2_lengthD)
  have "list_all2 (<) (idx @ [0]) (sh @ [Suc 0])"
    using assms by (simp add: list_all2_appendI)
  then have "unravel (sh @ [Suc 0]) (ravel (sh @ [Suc 0]) (idx @ [0])) = idx @ [0]"
    by (rule unravel_ravel)
  then show ?thesis by (simp add: ravel_snoc_one [OF len])
qed

lemma upt_0_2: "[0..<2] = [0, Suc 0]"
  by (simp add: upt_rec)

lemma chunk_sizes_even: "chunk_sizes (2 * k) 2 = [k, k]"
proof (cases "k = 0")
  case True
  then show ?thesis by (simp add: chunk_sizes_def numeral_2_eq_2)
next
  case False
  have a: "(2 * k + 2 - 1) div 2 = k" by simp
  have b: "(2 * k + k - 1) div k = 2"
  proof -
    have "k * 2 \<le> 2 * k + k - 1" using False by simp
    moreover have "2 * k + k - 1 < k * Suc 2" using False by simp
    ultimately show ?thesis by (rule div_nat_eqI)
  qed
  show ?thesis unfolding chunk_sizes_def Let_def a b upt_0_2 using False by simp
qed

lemma chunk_sizes_two: "chunk_sizes 2 2 = [1, 1]"
  using chunk_sizes_even [of 1] by simp

lemma bidx_valid:
  "list_all2 (<) idx sh \<Longrightarrow> bidx sh idx = idx"
proof (induction idx sh rule: list_all2_induct)
  case Nil
  then show ?case by (simp add: bidx_def)
next
  case (Cons i idx n sh)
  have len: "length idx = length sh"
    using Cons.hyps(2) by (rule list_all2_lengthD)
  show ?case using Cons.IH Cons.hyps(1) by (auto simp: bidx_def len)
qed

lemma sum_two_halves:
  fixes g :: "nat \<Rightarrow> real"
  shows "(\<Sum>i<2 * k. g i) = (\<Sum>j<k. g j + g (j + k))"
proof -
  have "{..<2 * k} = {..<k} \<union> {k..<k + k}" by auto
  moreover have "{..<k} \<inter> {k..<k + k} = {}" by auto
  ultimately have "(\<Sum>i<2 * k. g i) = (\<Sum>i<k. g i) + (\<Sum>i = k..<k + k. g i)"
    by (simp add: sum.union_disjoint)
  also have "(\<Sum>i = k..<k + k. g i) = (\<Sum>j = 0..<k. g (j + k))"
    using sum.shift_bounds_nat_ivl [of g 0 k k] by simp
  also have "(\<Sum>j = 0..<k. g (j + k)) = (\<Sum>j<k. g (j + k))"
    by (simp add: atLeast0LessThan)
  finally show ?thesis by (simp add: sum.distrib)
qed

lemma transpose_1_2_rank4:
  assumes "shape t = [a, b, c, d]"
  shows "transpose_t 1 2 t =
     Inr \<lparr>shape = [a, c, b, d], elems = (\<lambda>idx. elems t (idx[1 := idx ! 2, 2 := idx ! 1]))\<rparr>"
  by (simp add: transpose_t_def norm_dim_def bind_err_def assms)

lemma chunk_last_even:
  assumes "shape t = [b, h, s, 2 * k]"
  shows "chunk t 2 (- 1) =
     Inr [\<lparr>shape = [b, h, s, k], elems = (\<lambda>idx. elems t (idx[3 := idx ! 3 + 0 * k]))\<rparr>,
          \<lparr>shape = [b, h, s, k], elems = (\<lambda>idx. elems t (idx[3 := idx ! 3 + 1 * k]))\<rparr>]"
proof -
  have a: "(2 * k + 2 - 1) div 2 = k" by simp
  show ?thesis
    unfolding chunk_def Let_def bind_err_def norm_dim_def assms
    by (simp add: chunk_sizes_even a upt_0_2)
qed

lemma chunk_last_two:
  assumes "shape t = [b, h, s, k, 2]"
  shows "chunk t 2 (- 1) =
     Inr [\<lparr>shape = [b, h, s, k, 1], elems = (\<lambda>idx. elems t (idx[4 := idx ! 4 + 0 * 1]))\<rparr>,
          \<lparr>shape = [b, h, s, k, 1], elems = (\<lambda>idx. elems t (idx[4 := idx ! 4 + 1 * 1]))\<rparr>]"
  unfolding chunk_def Let_def bind_err_def norm_dim_def assms
  by (simp add: chunk_sizes_two upt_0_2)

lemma stack_two_last:
  assumes "shape t0 = [b, h, s, k]" "shape t1 = [b, h, s, k]"
  shows "stack [t0, t1] (- 1) =
     Inr \<lparr>shape = [b, h, s, k, 2],
          elems = (\<lambda>idx. elems ([t0, t1] ! (idx ! 4)) (take 4 idx @ drop 5 idx))\<rparr>"
  by (simp add: stack_def norm_dim_def bind_err_def assms)

lemma view_as_complex_rank5:
  assumes "shape t = [b, h, s, k, 2]"
  shows "view_as_complex t =
     Inr \<lparr>shape = [b, h, s, k],
          elems = (\<lambda>idx. Complex (elems t (idx @ [0])) (elems t (idx @ [1])))\<rparr>"
  by (simp add: view_as_complex_def assms)

lemma reshape_for_broadcast_rank4:
  assumes "shape x = [b, h, s, k]" "shape f = [b, s, k]"
  shows "reshape_for_broadcast f x =
     Inr \<lparr>shape = [b, 1, s, k],
          elems = (\<lambda>idx. elems f (unravel [b, s, k] (ravel [b, 1, s, k] idx)))\<rparr>"
proof -
  have n: "nat (int b * (int s * int k)) = b * (s * k)"
    by (simp add: nat_mult_distrib)
  have "infer_size [int b, 1, int s, int k] (b * (s * k)) = Inr [b, 1, s, k]"
    by (simp add: infer_size_def n Let_def)
  then show ?thesis
    by (simp add: reshape_for_broadcast_def reshape_def numel_def bind_err_def assms
        del: unravel.simps ravel.simps)
qed

lemma binop_broadcast_heads:
  assumes "shape x = [b, h, s, k]" "shape f = [b, 1, s, k]"
  shows "binop g x f =
     Inr \<lparr>shape = [b, h, s, k],
          elems = (\<lambda>idx. g (elems x (bidx [b, h, s, k] idx)) (elems f (bidx [b, 1, s, k] idx)))\<rparr>"
  by (simp add: binop_def broadcast_shapes_def bind_err_def assms)

lemma cat_two_rank5:
  assumes "shape t0 = [b, h, s, k, 1]" "shape t1 = [b, h, s, k, 1]"
  shows "cat [t0, t1] (- 2) =
     Inr \<lparr>shape = [b, h, s, k + k, 1],
          elems = (\<lambda>idx. if idx ! 3 < k then elems t0 idx else elems t1 (idx[3 := idx ! 3 - k]))\<rparr>"
  by (simp add: cat_def cat2_def norm_dim_def bind_err_def assms cong: if_cong)

lemma reshape_merge_last:
  assumes "shape t = [b, h, s, d, 1]" "0 < b" "0 < h" "0 < s"
  shows "reshape [int (shape t ! 0), int (shape t ! 1), int (shape t ! 2), - 1] t =
     Inr \<lparr>shape = [b, h, s, d],
          elems = (\<lambda>idx. elems t (unravel [b, h, s, d, 1] (ravel [b, h, s, d] idx)))\<rparr>"
proof -
  have n: "nat (int b * (int h * int s)) = b * (h * s)"
    by (simp add: nat_mult_distrib)
  have "infer_size [int b, int h, int s, - 1] (b * (h * (s * d))) = Inr [b, h, s, d]"
    using assms(2-4) by (simp add: infer_size_def n Let_def)
  then show ?thesis
    by (simp add: reshape_def numel_def bind_err_def assms(1) del: unravel.simps ravel.simps)
qed

lemma apply_rotary_emb_pairs:
  assumes x: "shape x = [B, S, H, 2 * K]"
    and f: "shape f = [B, S, K]"
    and pos: "0 < B" "0 < S" "0 < H"
  shows "\<exists>y. apply_rotary_emb x f = Inr y \<and> shape y = [B, S, H, 2 * K] \<and>
          (\<forall>b<B. \<forall>s<S. \<forall>h<H. \<forall>j<K.
             Complex (elems y [b, s, h, j]) (elems y [b, s, h, j + K]) =
             Complex (elems x [b, s, h, j]) (elems x [b, s, h, j + K]) * elems f [b, s, j])"
proof -
  define xt where "xt = \<lparr>shape = [B, H, S, 2 * K],
     elems = (\<lambda>idx. elems x (idx[1 := idx ! 2, 2 := idx ! 1]))\<rparr>"
  define c0 where "c0 = \<lparr>shape = [B, H, S, K], elems = (\<lambda>idx. elems xt (idx[3 := idx ! 3 + 0 * K]))\<rparr>"
  define c1 where "c1 = \<lparr>shape = [B, H, S, K], elems = (\<lambda>idx. elems xt (idx[3 := idx ! 3 + 1 * K]))\<rparr>"
  define st where "st = \<lparr>shape = [B, H, S, K, 2],
     elems = (\<lambda>idx. elems ([c0, c1] ! (idx ! 4)) (take 4 idx @ drop 5 idx))\<rparr>"
  define xc where "xc = \<lparr>shape = [B, H, S, K],
     elems = (\<lambda>idx. Complex (elems st (idx @ [0])) (elems st (idx @ [1])))\<rparr>"
  define fb where "fb = \<lparr>shape = [B, 1, S, K],
     elems = (\<lambda>idx. elems f (unravel [B, S, K] (ravel [B, 1, S, K] idx)))\<rparr>"
  define pr where "pr = \<lparr>shape = [B, H, S, K],
     elems = (\<lambda>idx. elems xc (bidx [B, H, S, K] idx) * elems fb (bidx [B, 1, S, K] idx))\<rparr>"
  define p0 where "p0 = \<lparr>shape = [B, H, S, K, 1],
     elems = (\<lambda>idx. elems (view_as_real pr) (idx[4 := idx ! 4 + 0 * 1]))\<rparr>"
  define p1 where "p1 = \<lparr>shape = [B, H, S, K, 1],
     elems = (\<lambda>idx. elems (view_as_real pr) (idx[4 := idx ! 4 + 1 * 1]))\<rparr>"
  define ct where "ct = \<lparr>shape = [B, H, S, K + K, 1],
     elems = (\<lambda>idx. if idx ! 3 < K then elems p0 idx else elems p1 (idx[3 := idx ! 3 - K]))\<rparr>"
  define rs where "rs = \<lparr>shape = [B, H, S, K + K],
     elems = (\<lambda>idx. elems ct (unravel [B, H, S, K + K, 1] (ravel [B, H, S, K + K] idx)))\<rparr>"
  define y where "y = \<lparr>shape = [B, S, H, K + K],
     elems = (\<lambda>idx. elems rs (idx[1 := idx ! 2, 2 := idx ! 1]))\<rparr>"
  have s1: "transpose_t 1 2 x = Inr xt"
    unfolding xt_def by (rule transpose_1_2_rank4 [OF x])
  have s2: "chunk xt 2 (- 1) = Inr [c0, c1]"
    unfolding c0_def c1_def by (rule chunk_last_even) (simp add: xt_def)
  have s3: "stack [c0, c1] (- 1) = Inr st"
    unfolding st_def by (rule stack_two_last) (simp_all add: c0_def c1_def)
  have s4: "view_as_complex st = Inr xc"
    unfolding xc_def by (rule view_as_complex_rank5) (simp add: st_def)
  have s5: "reshape_for_broadcast f xc = Inr fb"
    unfolding fb_def by (rule reshape_for_broadcast_rank4) (simp_all add: xc_def f)
  have s6: "binop (*) xc fb = Inr pr"
    unfolding pr_def by (rule binop_broadcast_heads) (simp_all add: xc_def fb_def)
  have s7: "chunk (view_as_real pr) 2 (- 1) = Inr [p0, p1]"
    unfolding p0_def p1_def by (rule chunk_last_two) (simp add: view_as_real_def pr_def)
  have s8: "cat [p0, p1] (- 2) = Inr ct"
    unfolding ct_def by (rule cat_two_rank5) (simp_all add: p0_def p1_def)
  have s9: "reshape [int (shape ct ! 0), int (shape ct ! 1), int (shape ct ! 2), - 1] ct = Inr rs"
    unfolding rs_def by (rule reshape_merge_last) (simp_all add: ct_def pos)
  have s10: "transpose_t 1 2 rs = Inr y"
    unfolding y_def by (rule transpose_1_2_rank4) (simp add: rs_def)
  have run: "apply_rotary_emb x f = Inr y"
    unfolding apply_rotary_emb_def
    by (simp only: bind_err_def Let_def sum.case s1 s2 s3 s4 s5 s6 s7 s8 s9 s10)
  have sh: "shape y = [B, S, H, 2 * K]"
    by (simp add: y_def)
  have el: "Complex (elems y [b, s, h, j]) (elems y [b, s, h, j + K]) =
            Complex (elems x [b, s, h, j]) (elems x [b, s, h, j + K]) * elems f [b, s, j]"
    if lt: "b < B" "s < S" "h < H" "j < K" for b s h j
  proof -
    have v4: "list_all2 (<) [b, h, s, j] [B, H, S, K]"
      using lt by simp
    have v4b: "list_all2 (<) [b, 0, s, j] [B, 1, S, K]"
      using lt by simp
    have v3: "list_all2 (<) [b, s, j] [B, S, K]"
      using lt by simp
    have u0: "unravel [B, H, S, K + K, Suc 0] (ravel [B, H, S, K + K] [b, h, s, j]) = [b, h, s, j, 0]"
      using unravel_snoc_one [of "[b, h, s, j]" "[B, H, S, K + K]"] lt by simp
    have u1: "unravel [B, H, S, K + K, Suc 0] (ravel [B, H, S, K + K] [b, h, s, j + K]) = [b, h, s, j + K, 0]"
      using unravel_snoc_one [of "[b, h, s, j + K]" "[B, H, S, K + K]"] lt by simp
    have rv: "ravel [B, 1, S, K] [b, 0, s, j] = ravel [B, S, K] [b, s, j]"
      by simp
    have fbv: "elems fb [b, 0, s, j] = elems f [b, s, j]"
      unfolding fb_def using unravel_ravel [OF v3] by (simp only: tensor.simps rv)
    have bx: "bidx [B, H, S, K] [b, h, s, j] = [b, h, s, j]"
      by (rule bidx_valid [OF v4])
    have bf: "bidx [B, 1, S, K] [b, h, s, j] = [b, 0, s, j]"
      using lt by (simp add: bidx_def)
    have xcv: "elems xc [b, h, s, j] = Complex (elems x [b, s, h, j]) (elems x [b, s, h, j + K])"
      by (simp add: xc_def st_def c0_def c1_def xt_def)
    have prv: "elems pr [b, h, s, j] =
        Complex (elems x [b, s, h, j]) (elems x [b, s, h, j + K]) * elems f [b, s, j]"
      by (simp only: pr_def tensor.simps bx bf xcv fbv)
    have y0: "elems y [b, s, h, j] = Re (elems pr [b, h, s, j])"
      using lt by (simp add: y_def rs_def u0 ct_def p0_def view_as_real_def del: unravel.simps ravel.simps)
    have y1: "elems y [b, s, h, j + K] = Im (elems pr [b, h, s, j])"
      using lt by (simp add: y_def rs_def u1 ct_def p1_def view_as_real_def del: unravel.simps ravel.simps)
    show ?thesis
      by (simp only: y0 y1 prv [symmetric] complex_surj)
  qed
  show ?thesis
    using run sh el by blast
qed

section \<open>Properties of the rotary embedding\<close>

text \<open>
  C2. For a head dimension \<open>d\<close>, a length \<open>n\<close> (both non-negative) and a positive base
  \<open>theta\<close>, \<open>precompute_freqs_cis d n theta\<close> returns a table of shape \<open>n\<close> by \<open>d div 2\<close>
  whose entry at position \<open>t\<close> and index \<open>i\<close> is the complex number of modulus one and
  angle \<open>t / theta ^ (2 i / d)\<close>, that is \<open>cos\<close> and \<open>sin\<close> of that angle.
\<close>

theorem precompute_freqs_cis_table:
  assumes "0 \<le> d" and "0 \<le> n" and "0 < theta"
  shows "\<exists>T. precompute_freqs_cis d n theta = Inr T
           \<and> shape T = [nat n, nat (d div 2)]
           \<and> (\<forall>t<nat n. \<forall>i<nat (d div 2).
                 elems T [t, i] = cis (real t / theta powr (real (2 * i) / real_of_int d))
                 \<and> cmod (elems T [t, i]) = 1)"
proof -
  have m: "min (nat ((d + 1) div 2)) (nat (d div 2)) = nat (d div 2)"
    using assms(1) by (simp add: nat_mono zdiv_mono1)
  show ?thesis
    using assms(1,2)
    by (simp add: precompute_freqs_cis_def arange_def slice_to_def tmap_def outer_def
        ones_like_def polar_def bind_err_def Let_def m mult.commute)
qed

theorem precompute_freqs_cis_table_witness:
  "(0::int) \<le> 4 \<and> (0::int) \<le> 2 \<and> (0::real) < 10000
   \<and> (\<exists>T. precompute_freqs_cis 4 2 10000 = Inr T \<and> shape T = [2, 2]
          \<and> elems T [1, 0] = cis 1 \<and> elems T [1, 1] = cis (1 / 100) \<and> cmod (elems T [1, 1]) = 1)"
proof -
  have h1: "(0::int) \<le> 4" and h2: "(0::int) \<le> 2" and h3: "(0::real) < 10000"
    by simp_all
  from precompute_freqs_cis_table [OF h1 h2 h3]
  obtain T where T: "precompute_freqs_cis 4 2 10000 = Inr T" "shape T = [nat 2, nat (4 div 2)]"
    and el: "\<And>t i. t < nat 2 \<Longrightarrow> i < nat (4 div 2) \<Longrightarrow>
               elems T [t, i] = cis (real t / 10000 powr (real (2 * i) / real_of_int 4))
               \<and> cmod (elems T [t, i]) = 1"
    by blast
  have r: "(10000::real) powr (1 / 2) = 100"
  proof -
    have "(10000::real) = 100 ^ 2" by simp
    then have "(10000::real) powr (1 / 2) = (100 ^ 2) powr (1 / 2)" by simp
    also have "\<dots> = 100" by (simp add: powr_half_sqrt)
    finally show ?thesis .
  qed
  have e0: "elems T [1, 0] = cis 1"
    using el [of 1 0] by simp
  have e1: "elems T [1, 1] = cis (1 / 100) \<and> cmod (elems T [1, 1]) = 1"
    using el [of 1 1] r by simp
  show ?thesis
    using T e0 e1 by simp
qed

text \<open>
  C3. For an input \<open>x\<close> of shape (batch, sequence, heads, head dimension), with an even
  head dimension \<open>2 K\<close>, and a table slice of shape (batch, sequence, \<open>K\<close>) whose entries
  have modulus one, \<open>apply_rotary_emb\<close> returns a tensor of the shape of \<open>x\<close> in which
  every rotated pair of components (\<open>j\<close> and \<open>j + K\<close>) has the Euclidean norm of the pair
  of \<open>x\<close>, and so every vector along the last dimension has the norm of the vector of
  \<open>x\<close>. The entries are real numbers: the equalities are exact.
\<close>

theorem apply_rotary_emb_preserves_norm:
  assumes x: "shape x = [B, S, H, 2 * K]"
    and f: "shape f = [B, S, K]"
    and pos: "0 < B" "0 < S" "0 < H"
    and unit: "\<forall>b<B. \<forall>s<S. \<forall>j<K. cmod (elems f [b, s, j]) = 1"
  shows "\<exists>y. apply_rotary_emb x f = Inr y \<and> shape y = shape x
           \<and> (\<forall>b<B. \<forall>s<S. \<forall>h<H.
                 (\<forall>j<K. sqrt ((elems y [b, s, h, j])\<^sup>2 + (elems y [b, s, h, j + K])\<^sup>2)
                         = sqrt ((elems x [b, s, h, j])\<^sup>2 + (elems x [b, s, h, j + K])\<^sup>2))
                 \<and> vec_norm y [b, s, h] = vec_norm x [b, s, h])"
proof -
  from apply_rotary_emb_pairs [OF x f pos]
  obtain y where run: "apply_rotary_emb x f = Inr y" and sh: "shape y = [B, S, H, 2 * K]"
    and el: "\<And>b s h j. b < B \<Longrightarrow> s < S \<Longrightarrow> h < H \<Longrightarrow> j < K \<Longrightarrow>
               Complex (elems y [b, s, h, j]) (elems y [b, s, h, j + K]) =
               Complex (elems x [b, s, h, j]) (elems x [b, s, h, j + K]) * elems f [b, s, j]"
    by blast
  have pair: "(elems y [b, s, h, j])\<^sup>2 + (elems y [b, s, h, j + K])\<^sup>2
              = (elems x [b, s, h, j])\<^sup>2 + (elems x [b, s, h, j + K])\<^sup>2"
    if lt: "b < B" "s < S" "h < H" "j < K" for b s h j
  proof -
    have "cmod (Complex (elems y [b, s, h, j]) (elems y [b, s, h, j + K]))
          = cmod (Complex (elems x [b, s, h, j]) (elems x [b, s, h, j + K])) * cmod (elems f [b, s, j])"
      by (simp only: el [OF lt] norm_mult)
    also have "cmod (elems f [b, s, j]) = 1"
      using unit lt by simp
    finally have "cmod (Complex (elems y [b, s, h, j]) (elems y [b, s, h, j + K]))
          = cmod (Complex (elems x [b, s, h, j]) (elems x [b, s, h, j + K]))"
      by simp
    then have "sqrt ((elems y [b, s, h, j])\<^sup>2 + (elems y [b, s, h, j + K])\<^sup>2)
          = sqrt ((elems x [b, s, h, j])\<^sup>2 + (elems x [b, s, h, j + K])\<^sup>2)"
      by (simp add: cmod_def)
    then show ?thesis by simp
  qed
  have vec: "vec_norm y [b, s, h] = vec_norm x [b, s, h]"
    if lt: "b < B" "s < S" "h < H" for b s h
  proof -
    have "(\<Sum>i<2 * K. (elems y [b, s, h, i])\<^sup>2)
          = (\<Sum>j<K. (elems y [b, s, h, j])\<^sup>2 + (elems y [b, s, h, j + K])\<^sup>2)"
      by (rule sum_two_halves)
    also have "\<dots> = (\<Sum>j<K. (elems x [b, s, h, j])\<^sup>2 + (elems x [b, s, h, j + K])\<^sup>2)"
      by (rule sum.cong) (simp_all add: pair lt)
    also have "\<dots> = (\<Sum>i<2 * K. (elems x [b, s, h, i])\<^sup>2)"
      by (rule sum_two_halves [symmetric])
    finally show ?thesis
      by (simp add: vec_norm_def sh x)
  qed
  show ?thesis
    using run sh x pair vec by simp
qed

theorem apply_rotary_emb_preserves_norm_witness:
  "shape rot_x = [1, 1, 1, 2 * 1] \<and> shape rot_f = [1, 1, 1]
   \<and> cmod (elems rot_f [0, 0, 0]) = 1
   \<and> (\<exists>y. apply_rotary_emb rot_x rot_f = Inr y \<and> shape y = [1, 1, 1, 2]
          \<and> elems y [0, 0, 0, 0] = - 4 \<and> elems y [0, 0, 0, 1] = 3
          \<and> vec_norm y [0, 0, 0] = 5 \<and> vec_norm rot_x [0, 0, 0] = 5)"
proof -
  have x: "shape rot_x = [1, 1, 1, 2 * 1]" and f: "shape rot_f = [1, 1, 1]"
    by (simp_all add: rot_x_def rot_f_def)
  have unit: "\<forall>b<1. \<forall>s<1. \<forall>j<1. cmod (elems rot_f [b, s, j]) = 1"
    by (simp add: rot_f_def)
  from apply_rotary_emb_preserves_norm [OF x f _ _ _ unit]
  obtain y where run: "apply_rotary_emb rot_x rot_f = Inr y" and sh: "shape y = shape rot_x"
    and vn: "vec_norm y [0, 0, 0] = vec_norm rot_x [0, 0, 0]"
    by auto
  have n5: "vec_norm rot_x [0, 0, 0] = 5"
  proof -
    have "(\<Sum>i<2. (elems rot_x ([0, 0, 0] @ [i]))\<^sup>2) = (25::real)"
      by (simp add: rot_x_def lessThan_Suc numeral_2_eq_2)
    moreover have "sqrt 25 = 5"
      using real_sqrt_abs [of 5] by simp
    ultimately show ?thesis
      by (simp add: vec_norm_def rot_x_def)
  qed
  from apply_rotary_emb_pairs [OF x f]
  obtain y' where run': "apply_rotary_emb rot_x rot_f = Inr y'"
    and el: "Complex (elems y' [0, 0, 0, 0]) (elems y' [0, 0, 0, 0 + 1]) =
             Complex (elems rot_x [0, 0, 0, 0]) (elems rot_x [0, 0, 0, 0 + 1]) * elems rot_f [0, 0, 0]"
    by auto
  have yy: "y' = y" using run run' by simp
  have "Complex (elems y [0, 0, 0, 0]) (elems y [0, 0, 0, 1]) = Complex (- 4) 3"
    using el by (simp add: yy rot_x_def rot_f_def complex_eq_iff)
  then have vals: "elems y [0, 0, 0, 0] = - 4" "elems y [0, 0, 0, 1] = 3"
    by simp_all
  show ?thesis
    using x f unit run sh vn n5 vals by (simp add: rot_x_def)
qed

section \<open>Properties of the Gemma modules\<close>

lemma GemmaAttention_init_chosen:
  "GemmaAttention_init lib hidden_sz n_heads n_kv_heads head_dm dev environment layer_id =
     (if n_kv_heads = 0 then Inl ZeroDivisionError
      else if n_heads mod n_kv_heads \<noteq> 0 then Inl AssertionError
      else
        bind_err (pow_neg_half head_dm) (\<lambda>scale.
        bind_err (new_Linear lib (chosen_Linear environment) hidden_sz (n_heads * head_dm) dev
                    (chosen_linear_kwargs environment)) (\<lambda>q.
        bind_err (new_Linear lib (chosen_Linear environment) hidden_sz (n_kv_heads * head_dm) dev
                    (chosen_linear_kwargs environment)) (\<lambda>k.
        bind_err (new_Linear lib (chosen_Linear environment) hidden_sz (n_kv_heads * head_dm) dev
                    (chosen_linear_kwargs environment)) (\<lambda>v.
        bind_err (new_Linear lib (chosen_Linear environment) (n_heads * head_dm) hidden_sz dev
                    (chosen_linear_kwargs environment)) (\<lambda>oproj.
        bind_err (new_Kernel lib (chosen_Kernel environment) environment layer_id) (\<lambda>kernel.
          Inr \<lparr>env = environment,
               num_heads = n_heads,
               num_kv_heads = n_kv_heads,
               num_queries_per_kv = n_heads div n_kv_heads,
               hidden_size = hidden_sz,
               head_dim = head_dm,
               q_size = n_heads * head_dm,
               kv_size = n_kv_heads * head_dm,
               scaling = scale,
               wq = q, wk = k, wv = v, o_proj = oproj,
               hf_names = [(''wk'', ''k_proj''), (''wv'', ''v_proj''), (''wq'', ''q_proj'')],
               shardings = [(''wk.weight'', 0), (''wv.weight'', 0), (''wq.weight'', 0),
                            (''o_proj.weight'', 1)]
                           @ (if chosen_Linear environment \<noteq> TorchLinear
                              then [(''wk.weight_scaler'', 0), (''wv.weight_scaler'', 0),
                                    (''wq.weight_scaler'', 0), (''o_proj.weight_scaler'', - 1)]
                              else []),
               attention_kernel = kernel\<rparr>)))))))"
  unfolding GemmaAttention_init_def chosen_Linear_def chosen_linear_kwargs_def chosen_Kernel_def
    Let_def
  by (rule refl)

text \<open>
  C4. Constructing \<open>GemmaAttention\<close> with a number of heads that the number of kv heads
  does not divide fails, at the assertion (or at the division, for zero kv heads), before
  any sub-module is built and whatever the library does. When it divides, the
  construction still fails, with \<open>ZeroDivisionError\<close> at \<open>head_dim ** -0.5\<close>, if the head
  dimension is zero. When it divides, the head dimension is not zero, and the library
  returns the three linear layers and the attention kernel at the arguments that the
  constructor passes (the classes chosen from the quantization configuration, the sizes
  \<open>hidden_size\<close> to \<open>num_heads * head_dim\<close>, \<open>hidden_size\<close> to \<open>num_kv_heads * head_dim\<close>, and
  \<open>num_heads * head_dim\<close> to \<open>hidden_size\<close>), the construction returns a module that holds
  them and whose \<open>num_queries_per_kv\<close> is the quotient \<open>num_heads div num_kv_heads\<close>.
\<close>

theorem GemmaAttention_init_divisibility:
  fixes lib :: "('l, 'k, 'e) layers_lib"
  shows
  "(n_kv_heads = 0 \<or> n_heads mod n_kv_heads \<noteq> 0 \<longrightarrow>
      GemmaAttention_init lib hidden_sz n_heads n_kv_heads head_dm dev environment layer_id
        \<in> {Inl ZeroDivisionError, Inl AssertionError})
   \<and> (n_kv_heads \<noteq> 0 \<and> n_heads mod n_kv_heads = 0 \<and> head_dm = 0 \<longrightarrow>
      GemmaAttention_init lib hidden_sz n_heads n_kv_heads head_dm dev environment layer_id
        = Inl ZeroDivisionError)
   \<and> (n_kv_heads \<noteq> 0 \<and> n_heads mod n_kv_heads = 0 \<and> head_dm \<noteq> 0
        \<and> new_Linear lib (chosen_Linear environment) hidden_sz (n_heads * head_dm) dev
            (chosen_linear_kwargs environment) = Inr q
        \<and> new_Linear lib (chosen_Linear environment) hidden_sz (n_kv_heads * head_dm) dev
            (chosen_linear_kwargs environment) = Inr k
        \<and> new_Linear lib (chosen_Linear environment) (n_heads * head_dm) hidden_sz dev
            (chosen_linear_kwargs environment) = Inr oproj
        \<and> new_Kernel lib (chosen_Kernel environment) environment layer_id = Inr kern \<longrightarrow>
      (\<exists>attn. GemmaAttention_init lib hidden_sz n_heads n_kv_heads head_dm dev environment layer_id
                = Inr attn
          \<and> num_queries_per_kv attn = n_heads div n_kv_heads
          \<and> num_queries_per_kv attn * n_kv_heads = n_heads
          \<and> wq attn = q \<and> wk attn = k \<and> wv attn = k \<and> o_proj attn = oproj
          \<and> attention_kernel attn = kern))"
proof (intro conjI impI)
  assume "n_kv_heads = 0 \<or> n_heads mod n_kv_heads \<noteq> 0"
  then show "GemmaAttention_init lib hidden_sz n_heads n_kv_heads head_dm dev environment layer_id
        \<in> {Inl ZeroDivisionError, Inl AssertionError}"
    by (auto simp: GemmaAttention_init_def)
next
  assume "n_kv_heads \<noteq> 0 \<and> n_heads mod n_kv_heads = 0 \<and> head_dm = 0"
  then show "GemmaAttention_init lib hidden_sz n_heads n_kv_heads head_dm dev environment layer_id
        = Inl ZeroDivisionError"
    by (simp add: GemmaAttention_init_chosen pow_neg_half_def bind_err_def)
next
  assume a: "n_kv_heads \<noteq> 0 \<and> n_heads mod n_kv_heads = 0 \<and> head_dm \<noteq> 0
        \<and> new_Linear lib (chosen_Linear environment) hidden_sz (n_heads * head_dm) dev
            (chosen_linear_kwargs environment) = Inr q
        \<and> new_Linear lib (chosen_Linear environment) hidden_sz (n_kv_heads * head_dm) dev
            (chosen_linear_kwargs environment) = Inr k
        \<and> new_Linear lib (chosen_Linear environment) (n_heads * head_dm) hidden_sz dev
            (chosen_linear_kwargs environment) = Inr oproj
        \<and> new_Kernel lib (chosen_Kernel environment) environment layer_id = Inr kern"
  have "\<exists>sc. pow_neg_half head_dm = Inr sc"
    using a by (simp add: pow_neg_half_def)
  then obtain sc where sc: "pow_neg_half head_dm = Inr sc" ..
  have dv: "n_heads div n_kv_heads * n_kv_heads = n_heads"
    using a by (simp add: mod_eq_0_iff_dvd)
  show "\<exists>attn. GemmaAttention_init lib hidden_sz n_heads n_kv_heads head_dm dev environment layer_id
                = Inr attn
          \<and> num_queries_per_kv attn = n_heads div n_kv_heads
          \<and> num_queries_per_kv attn * n_kv_heads = n_heads
          \<and> wq attn = q \<and> wk attn = k \<and> wv attn = k \<and> o_proj attn = oproj
          \<and> attention_kernel attn = kern"
    using a sc dv by (simp add: GemmaAttention_init_chosen bind_err_def)
qed

theorem GemmaAttention_init_divisibility_witness:
  "GemmaAttention_init strict_lib 2048 8 3 256 ''meta'' ex_env 0 = Inl AssertionError
   \<and> GemmaAttention_init strict_lib 2048 8 0 256 ''meta'' ex_env 0 = Inl ZeroDivisionError
   \<and> GemmaAttention_init strict_lib 2048 8 1 0 ''meta'' ex_env 0 = Inl ZeroDivisionError
   \<and> (\<exists>attn. GemmaAttention_init strict_lib 2048 8 1 256 ''meta'' ex_env 0 = Inr attn
          \<and> num_queries_per_kv attn = 8
          \<and> wq attn = (2048, 2048) \<and> wk attn = (2048, 256) \<and> wv attn = (2048, 256)
          \<and> o_proj attn = (2048, 2048))"
proof -
  have bad: "GemmaAttention_init strict_lib 2048 8 3 256 ''meta'' ex_env 0
               \<in> {Inl ZeroDivisionError, Inl AssertionError}"
    using GemmaAttention_init_divisibility [where n_kv_heads = 3 and n_heads = 8 and lib = strict_lib and hidden_sz = 2048
        and head_dm = 256 and dev = "''meta''" and environment = ex_env and layer_id = 0]
    by simp
  have bad_is: "GemmaAttention_init strict_lib 2048 8 3 256 ''meta'' ex_env 0 \<noteq> Inl ZeroDivisionError"
    by (simp add: GemmaAttention_init_def)
  have zero: "GemmaAttention_init strict_lib 2048 8 0 256 ''meta'' ex_env 0
               \<in> {Inl ZeroDivisionError, Inl AssertionError}"
    using GemmaAttention_init_divisibility [where n_kv_heads = 0 and n_heads = 8 and lib = strict_lib and hidden_sz = 2048
        and head_dm = 256 and dev = "''meta''" and environment = ex_env and layer_id = 0]
    by simp
  have zero_is: "GemmaAttention_init strict_lib 2048 8 0 256 ''meta'' ex_env 0 \<noteq> Inl AssertionError"
    by (simp add: GemmaAttention_init_def)
  have hd: "GemmaAttention_init strict_lib 2048 8 1 0 ''meta'' ex_env 0 = Inl ZeroDivisionError"
    using GemmaAttention_init_divisibility [where n_kv_heads = 1 and n_heads = 8 and lib = strict_lib and hidden_sz = 2048
        and head_dm = 0 and dev = "''meta''" and environment = ex_env and layer_id = 0]
    by simp
  have good: "\<exists>attn. GemmaAttention_init strict_lib 2048 8 1 256 ''meta'' ex_env 0 = Inr attn
          \<and> num_queries_per_kv attn = 8
          \<and> wq attn = (2048, 2048) \<and> wk attn = (2048, 256) \<and> wv attn = (2048, 256)
          \<and> o_proj attn = (2048, 2048)"
    using GemmaAttention_init_divisibility [where n_kv_heads = 1 and n_heads = 8 and lib = strict_lib and hidden_sz = 2048
        and head_dm = 256 and dev = "''meta''" and environment = ex_env and layer_id = 0
        and q = "(2048, 2048)" and k = "(2048, 256)" and oproj = "(2048, 2048)" and kern = "()"]
    by (simp add: strict_lib_def)
  show ?thesis
    using bad bad_is zero zero_is hd good by auto
qed

text \<open>
  With eight heads, two kv heads and a head dimension of zero, the number of kv heads
  divides the number of heads and the library would return every sub-module, yet the
  construction fails.
\<close>

theorem GemmaAttention_init_divisibility_counterexample:
  "(8::int) mod 2 = 0
   \<and> GemmaAttention_init strict_lib 2048 8 2 0 ''meta'' ex_env 0 = Inl ZeroDivisionError
   \<and> new_Linear strict_lib (chosen_Linear ex_env) 2048 (8 * 0) ''meta''
       (chosen_linear_kwargs ex_env) = Inr (2048, 0)
   \<and> new_Linear strict_lib (chosen_Linear ex_env) 2048 (2 * 0) ''meta''
       (chosen_linear_kwargs ex_env) = Inr (2048, 0)
   \<and> new_Linear strict_lib (chosen_Linear ex_env) (8 * 0) 2048 ''meta''
       (chosen_linear_kwargs ex_env) = Inr (0, 2048)
   \<and> new_Kernel strict_lib (chosen_Kernel ex_env) ex_env 0 = Inr ()"
  by (simp add: GemmaAttention_init_def pow_neg_half_def bind_err_def strict_lib_def)

text \<open>
  C6. \<open>GemmaDecoderLayer.forward\<close> computes \<open>h1 = x + attention(input_layernorm(x))\<close> and then
  \<open>h1 + mlp(post_attention_layernorm(h1))\<close>: the normalization feeds the attention, whose
  output is added to the input; the sum is normalized and fed to the feed-forward, whose
  output is added to the sum. The attention receives the other arguments of the call
  unchanged, and the cache it leaves is the layer's.
\<close>

theorem GemmaDecoderLayer_forward_residual:
  "GemmaDecoderLayer_forward sem self a = (out, cache') \<longleftrightarrow>
     (\<exists>normed att h1 normed2 ff.
        normed = rms_norm_forward sem (input_layernorm self) (arg_hidden_states a)
        \<and> (att, cache') = attention_forward sem (self_attn self) (a\<lparr>arg_hidden_states := normed\<rparr>)
        \<and> h1 = arg_hidden_states a + att
        \<and> normed2 = rms_norm_forward sem (post_attention_layernorm self) h1
        \<and> ff = mlp_forward sem (mlp self) normed2
        \<and> out = h1 + ff)"
  by (auto simp: GemmaDecoderLayer_forward_def Let_def split: prod.splits)

theorem GemmaDecoderLayer_forward_residual_witness:
  "\<exists>layer. GemmaDecoderLayer_init ex_lib ex_cfg ex_env 0 = Inr layer
      \<and> GemmaDecoderLayer_forward ex_sem layer ex_call = (112, 1)"
proof -
  have "\<exists>layer. GemmaDecoderLayer_init ex_lib ex_cfg ex_env 0 = Inr layer"
    by (simp add: GemmaDecoderLayer_init_def GemmaAttention_init_def GemmaMLP_init_def
        RMSNorm_init_def zeros_def pow_neg_half_def bind_err_def Let_def
        ex_lib_def ex_cfg_def ex_env_def)
  then obtain layer where l: "GemmaDecoderLayer_init ex_lib ex_cfg ex_env 0 = Inr layer"
    by blast
  have "GemmaDecoderLayer_forward ex_sem layer ex_call = (112, 1)"
    using GemmaDecoderLayer_forward_residual [of ex_sem layer ex_call 112 1]
    by (simp add: ex_sem_def ex_call_def)
  with l show ?thesis by blast
qed

lemma run_layers_calls:
  "c \<in> set (fst (run_layers sem ls i hs fc a e caches)) \<Longrightarrow>
     arg_end c = e \<and> arg_start c = start a \<and> arg_freqs_cis c = fc"
proof (induction ls arbitrary: i hs caches)
  case Nil
  then show ?case by simp
next
  case (Cons l ls)
  show ?case
  proof (cases "i < length caches")
    case False
    with Cons.prems show ?thesis by simp
  next
    case True
    obtain h cache where step: "GemmaDecoderLayer_forward sem l
        \<lparr>arg_hidden_states = hs, arg_freqs_cis = fc, arg_cache = caches ! i,
         arg_mask = attn_mask a, arg_start = start a, arg_end = e,
         arg_ragged_batch_index = ragged_batch_index a,
         arg_ragged_block_index = ragged_block_index a\<rparr> = (h, cache)"
      by (cases "GemmaDecoderLayer_forward sem l
        \<lparr>arg_hidden_states = hs, arg_freqs_cis = fc, arg_cache = caches ! i,
         arg_mask = attn_mask a, arg_start = start a, arg_end = e,
         arg_ragged_batch_index = ragged_batch_index a,
         arg_ragged_block_index = ragged_block_index a\<rparr>")
    from Cons.prems True step
    have "c = \<lparr>arg_hidden_states = hs, arg_freqs_cis = fc, arg_cache = caches ! i,
         arg_mask = attn_mask a, arg_start = start a, arg_end = e,
         arg_ragged_batch_index = ragged_batch_index a,
         arg_ragged_block_index = ragged_block_index a\<rparr>
       \<or> c \<in> set (fst (run_layers sem ls (Suc i) h fc a e (caches[i := cache])))"
      by (auto simp: Let_def split: prod.splits)
    then show ?thesis
      using Cons.IH by auto
  qed
qed

lemma run_layers_all_called:
  "run_layers sem ls i hs fc a e caches = (calls, caches', Inr h) \<Longrightarrow> length calls = length ls"
proof (induction ls arbitrary: i hs caches calls)
  case Nil
  then show ?case by simp
next
  case (Cons l ls)
  then show ?case
    by (auto simp: Let_def split: if_splits prod.splits)
qed

lemma wrap_int_in_range:
  assumes "in_dtype_range d v"
  shows "wrap_int d v = v"
proof -
  have p: "(2::int) ^ dtype_bits d = 2 * 2 ^ (dtype_bits d - 1)"
    by (cases d) simp_all
  from assms have "0 \<le> v + 2 ^ (dtype_bits d - 1)" and "v + 2 ^ (dtype_bits d - 1) < 2 ^ dtype_bits d"
    unfolding p by (simp_all add: in_dtype_range_def)
  then have "(v + 2 ^ (dtype_bits d - 1)) mod 2 ^ dtype_bits d = v + 2 ^ (dtype_bits d - 1)"
    by (rule mod_pos_pos_trivial)
  then show ?thesis
    by (simp add: wrap_int_def)
qed

lemma end_cursor_Some:
  assumes "end_cursor (Some s) pos clen = Inr e"
  shows "\<exists>sum ev. binop (+) s pos = Inr sum \<and> e = Some ev \<and> shape ev = shape sum
           \<and> dtype ev = result_dtype s pos
           \<and> in_dtype_range TorchInt64 clen
           \<and> (\<forall>idx. elems ev idx =
                 wrap_int (result_dtype s pos)
                   (elems s (bidx (shape s) idx) + elems pos (bidx (shape pos) idx))
                 mod wrap_int (result_dtype s pos) clen)"
proof -
  from assms obtain sum where sum: "binop (+) s pos = Inr sum"
    by (auto simp: end_cursor_def add_int_def bind_err_def split: sum.splits)
  define w where "w = \<lparr>shape = shape sum,
            elems = (\<lambda>idx. wrap_int (result_dtype s pos) (elems sum idx)),
            dtype = result_dtype s pos\<rparr>"
  have ai: "add_int s pos = Inr w"
    by (simp add: add_int_def sum bind_err_def w_def)
  from assms ai obtain ev where ev: "remainder_scalar w clen = Inr ev" and e: "e = Some ev"
    by (auto simp: end_cursor_def bind_err_def split: sum.splits)
  from ev have rng: "in_dtype_range TorchInt64 clen"
    and evd: "ev = \<lparr>shape = shape w, elems = (\<lambda>idx. elems w idx mod wrap_int (dtype w) clen),
                    dtype = dtype w\<rparr>"
    by (auto simp: remainder_scalar_def Let_def split: if_splits)
  from sum have el: "elems sum = (\<lambda>idx. elems s (bidx (shape s) idx) + elems pos (bidx (shape pos) idx))"
    by (auto simp: binop_def bind_err_def split: sum.splits)
  show ?thesis
    using sum e rng by (simp add: evd w_def el)
qed

lemma forward_layer_calls:
  assumes c: "c \<in> set (layer_calls (GemmaModel_forward sem self a caches))"
  shows "\<exists>e. end_cursor (start a) (input_pos a) (cache_len (model_env self)) = Inr e
           \<and> arg_end c = e \<and> arg_start c = start a
           \<and> bind_err (index_rows (freqs_cis self) (input_pos a))
                (reshape [int (shape (tokens a) ! 0), int (shape (tokens a) ! 1), - 1])
              = Inr (arg_freqs_cis c)"
proof -
  obtain bsz seqlen where sh: "shape (tokens a) = [bsz, seqlen]"
    using c by (auto simp: GemmaModel_forward_def Let_def split: list.splits)
  obtain fc where fc: "bind_err (index_rows (freqs_cis self) (input_pos a))
                         (reshape [int bsz, int seqlen, - 1]) = Inr fc"
    using c sh by (auto simp: GemmaModel_forward_def Let_def split: sum.splits)
  obtain e where e: "end_cursor (start a) (input_pos a) (cache_len (model_env self)) = Inr e"
    using c sh fc by (auto simp: GemmaModel_forward_def Let_def split: sum.splits)
  define hs where "hs = mul_scalar sem (embedder_forward sem (embedder self) (tokens a))
                          (pow_half (GemmaConfig.hidden_size (config self)))"
  have "layer_calls (GemmaModel_forward sem self a caches)
          = fst (run_layers sem (layers self) 0 hs fc a e caches)"
    by (simp add: GemmaModel_forward_def Let_def sh fc e hs_def split: prod.splits)
  with c have "c \<in> set (fst (run_layers sem (layers self) 0 hs fc a e caches))"
    by simp
  then have "arg_end c = e \<and> arg_start c = start a \<and> arg_freqs_cis c = fc"
    by (rule run_layers_calls)
  then show ?thesis
    using e fc sh by simp
qed

lemma forward_self_after: "self_after (GemmaModel_forward sem self a caches) = self"
  by (simp add: GemmaModel_forward_def Let_def split: list.splits sum.splits prod.splits)

lemma forward_calls_self: "fst (forward_calls sem self caches calls) = self"
  by (induction calls arbitrary: caches) (simp_all add: Let_def forward_self_after)

lemma forward_all_layers_called:
  assumes "outcome (GemmaModel_forward sem self a caches) = Inr logits"
  shows "length (layer_calls (GemmaModel_forward sem self a caches)) = length (layers self)"
proof -
  obtain bsz seqlen where sh: "shape (tokens a) = [bsz, seqlen]"
    using assms by (auto simp: GemmaModel_forward_def Let_def split: list.splits)
  obtain fc where fc: "bind_err (index_rows (freqs_cis self) (input_pos a))
                         (reshape [int bsz, int seqlen, - 1]) = Inr fc"
    using assms sh by (auto simp: GemmaModel_forward_def Let_def split: sum.splits)
  obtain e where e: "end_cursor (start a) (input_pos a) (cache_len (model_env self)) = Inr e"
    using assms sh fc by (auto simp: GemmaModel_forward_def Let_def split: sum.splits)
  define hs where "hs = mul_scalar sem (embedder_forward sem (embedder self) (tokens a))
                          (pow_half (GemmaConfig.hidden_size (config self)))"
  obtain calls caches' r where run: "run_layers sem (layers self) 0 hs fc a e caches = (calls, caches', r)"
    by (cases "run_layers sem (layers self) 0 hs fc a e caches") auto
  have out: "outcome (GemmaModel_forward sem self a caches) =
      bind_err r (\<lambda>hidden_states.
        Inr (matmul_transposed sem (rms_norm_forward sem (final_norm self) hidden_states)
               (case embedder_weight_scaler sem (embedder self) of
                  None \<Rightarrow> embedder_weight sem (embedder self)
                | Some sc \<Rightarrow> embedder_weight sem (embedder self) * sc)))"
    and cl: "layer_calls (GemmaModel_forward sem self a caches) = calls"
    by (simp_all add: GemmaModel_forward_def Let_def sh fc e hs_def [symmetric] run)
  from assms out obtain h where "r = Inr h"
    by (cases r) (auto simp: bind_err_def)
  with run have "length calls = length (layers self)"
    by (auto dest: run_layers_all_called)
  then show ?thesis
    by (simp add: cl)
qed

lemma build_layers_length:
  "build_layers lib cfg environment ids = Inr ls \<Longrightarrow> length ls = length ids"
  by (induction ids arbitrary: ls) (auto simp: bind_err_def split: sum.splits)

lemma GemmaModel_init_fields:
  assumes "GemmaModel_init lib cfg environment = Inr m"
  shows "config m = cfg" and "model_env m = environment"
    and "precompute_freqs_cis (GemmaConfig.head_dim cfg) (max_position_embeddings cfg * 2)
           (case rope_theta cfg of None \<Rightarrow> 10000 | Some t \<Rightarrow> t) = Inr (freqs_cis m)"
    and "length (layers m) = nat (num_hidden_layers cfg)"
  using assms
  by (auto simp: GemmaModel_init_def bind_err_def Let_def split: sum.splits
      dest: build_layers_length)

lemma ex_init: "\<exists>m. GemmaModel_init ex_lib ex_cfg ex_env = Inr m"
  by (simp add: GemmaModel_init_def GemmaDecoderLayer_init_def GemmaAttention_init_def
      GemmaMLP_init_def RMSNorm_init_def zeros_def pow_neg_half_def bind_err_def Let_def
      ex_lib_def ex_cfg_def ex_env_def precompute_freqs_cis_def arange_def slice_to_def
      tmap_def outer_def ones_like_def polar_def)

lemma env3_init: "\<exists>m. GemmaModel_init ex_lib ex_cfg env3 = Inr m"
  by (simp add: GemmaModel_init_def GemmaDecoderLayer_init_def GemmaAttention_init_def
      GemmaMLP_init_def RMSNorm_init_def zeros_def pow_neg_half_def bind_err_def Let_def
      ex_lib_def ex_cfg_def env3_def precompute_freqs_cis_def arange_def slice_to_def
      tmap_def outer_def ones_like_def polar_def)

lemma ex_table:
  "precompute_freqs_cis 2 8 10000 = Inr T \<Longrightarrow> shape T = [8, 1]"
  by (auto simp: precompute_freqs_cis_def arange_def slice_to_def
      tmap_def outer_def ones_like_def polar_def bind_err_def Let_def)

text \<open>A model of the small configuration makes one layer call on a batch of two positions.\<close>

lemma small_forward:
  assumes m: "GemmaModel_init ex_lib ex_cfg environment = Inr m"
    and tk: "shape (tokens a) = [2, 1]"
    and ps: "shape (input_pos a) = [2]"
    and p0: "- 8 \<le> elems (input_pos a) [0]" "elems (input_pos a) [0] < 8"
    and p1: "- 8 \<le> elems (input_pos a) [1]" "elems (input_pos a) [1] < 8"
    and e: "end_cursor (start a) (input_pos a) (cache_len environment) = Inr e"
  shows "\<exists>c. layer_calls (GemmaModel_forward ex_sem m a [0]) = [c] \<and> arg_end c = e"
proof -
  have cfg: "config m = ex_cfg" and env: "model_env m = environment"
    and tab: "precompute_freqs_cis 2 8 10000 = Inr (freqs_cis m)"
    and len: "length (layers m) = 1"
    using GemmaModel_init_fields [OF m] by (simp_all add: ex_cfg_def)
  have sh: "shape (freqs_cis m) = [8, 1]"
    using tab by (rule ex_table)
  obtain l where l: "layers m = [l]"
    using len by (cases "layers m") auto
  have ix: "\<exists>r. index_rows (freqs_cis m) (input_pos a) = Inr r \<and> shape r = [2, 1]"
    using p0 p1 by (simp add: index_rows_def sh ps indices_def upt_0_2)
  then obtain r where r: "index_rows (freqs_cis m) (input_pos a) = Inr r" "shape r = [2, 1]"
    by blast
  have "\<exists>fc. reshape [2, 1, - 1] r = Inr fc"
    by (simp add: reshape_def infer_size_def numel_def r bind_err_def Let_def)
  then obtain fc where fc: "reshape [2, 1, - 1] r = Inr fc"
    by blast
  show ?thesis
    using e
    by (simp add: GemmaModel_forward_def tk r fc env l bind_err_def Let_def split: prod.splits)
qed

lemma ex_end_cursor:
  "\<exists>e. end_cursor (start ex_args) (input_pos ex_args) (cache_len ex_env) = Inr e"
  by (simp add: end_cursor_def ex_args_def ex_env_def add_int_def binop_def broadcast_shapes_def
      remainder_scalar_def result_dtype_def wrap_int_def in_dtype_range_def bind_err_def Let_def)

lemma ex_forward:
  assumes m: "GemmaModel_init ex_lib ex_cfg ex_env = Inr m"
  shows "\<exists>c. layer_calls (GemmaModel_forward ex_sem m ex_args [0]) = [c]"
proof -
  obtain e where e: "end_cursor (start ex_args) (input_pos ex_args) (cache_len ex_env) = Inr e"
    using ex_end_cursor by blast
  have "\<exists>c. layer_calls (GemmaModel_forward ex_sem m ex_args [0]) = [c] \<and> arg_end c = e"
    using m _ _ _ _ _ _ e by (rule small_forward) (simp_all add: ex_args_def)
  then show ?thesis
    by blast
qed

text \<open>
  C1. In every call of \<open>GemmaModel.forward\<close>, each decoder layer that is called receives as
  \<open>end\<close>: \<open>None\<close> when \<open>start\<close> is \<open>None\<close>; and otherwise the tensor \<open>(start + input_pos) %
  cache_len\<close> in the fixed-width arithmetic of the tensors, entry by entry over the
  broadcast of the two shapes: the sum wraps around at the dtype of the result before the
  remainder is taken, and the cache length of the model's environment is converted to
  that dtype. So the entry is the mathematical \<open>(start + input_pos) mod cache_len\<close>
  whenever the sum and the cache length lie in the range of that dtype. When the call
  returns logits, every layer of the model was called.
\<close>

theorem GemmaModel_forward_end_cursor:
  "(\<forall>c \<in> set (layer_calls (GemmaModel_forward sem self a caches)).
      (case start a of
         None \<Rightarrow> arg_end c = None
       | Some s \<Rightarrow>
           (\<exists>sum e. binop (+) s (input_pos a) = Inr sum \<and> arg_end c = Some e
              \<and> shape e = shape sum
              \<and> dtype e = result_dtype s (input_pos a)
              \<and> (\<forall>idx. elems e idx =
                    wrap_int (dtype e)
                      (elems s (bidx (shape s) idx)
                         + elems (input_pos a) (bidx (shape (input_pos a)) idx))
                    mod wrap_int (dtype e) (cache_len (model_env self)))
              \<and> (\<forall>idx. in_dtype_range (dtype e)
                          (elems s (bidx (shape s) idx)
                             + elems (input_pos a) (bidx (shape (input_pos a)) idx))
                        \<and> in_dtype_range (dtype e) (cache_len (model_env self)) \<longrightarrow>
                    elems e idx =
                      (elems s (bidx (shape s) idx)
                         + elems (input_pos a) (bidx (shape (input_pos a)) idx))
                      mod cache_len (model_env self)))))
   \<and> (\<forall>logits. outcome (GemmaModel_forward sem self a caches) = Inr logits \<longrightarrow>
         length (layer_calls (GemmaModel_forward sem self a caches)) = length (layers self))"
proof (intro conjI ballI allI impI)
  fix c
  assume "c \<in> set (layer_calls (GemmaModel_forward sem self a caches))"
  then obtain e where e: "end_cursor (start a) (input_pos a) (cache_len (model_env self)) = Inr e"
    and c: "arg_end c = e"
    using forward_layer_calls by blast
  show "case start a of
          None \<Rightarrow> arg_end c = None
        | Some s \<Rightarrow>
            (\<exists>sum e. binop (+) s (input_pos a) = Inr sum \<and> arg_end c = Some e
               \<and> shape e = shape sum
               \<and> dtype e = result_dtype s (input_pos a)
               \<and> (\<forall>idx. elems e idx =
                     wrap_int (dtype e)
                       (elems s (bidx (shape s) idx)
                          + elems (input_pos a) (bidx (shape (input_pos a)) idx))
                     mod wrap_int (dtype e) (cache_len (model_env self)))
               \<and> (\<forall>idx. in_dtype_range (dtype e)
                           (elems s (bidx (shape s) idx)
                              + elems (input_pos a) (bidx (shape (input_pos a)) idx))
                         \<and> in_dtype_range (dtype e) (cache_len (model_env self)) \<longrightarrow>
                     elems e idx =
                       (elems s (bidx (shape s) idx)
                          + elems (input_pos a) (bidx (shape (input_pos a)) idx))
                       mod cache_len (model_env self)))"
  proof (cases "start a")
    case None
    with e c show ?thesis by (simp add: end_cursor_def)
  next
    case (Some s)
    with e have "end_cursor (Some s) (input_pos a) (cache_len (model_env self)) = Inr e"
      by simp
    from end_cursor_Some [OF this] obtain sum ev where
      sum: "binop (+) s (input_pos a) = Inr sum" and ev: "e = Some ev"
      and sh: "shape ev = shape sum" and dt: "dtype ev = result_dtype s (input_pos a)"
      and el: "\<And>idx. elems ev idx =
                 wrap_int (result_dtype s (input_pos a))
                   (elems s (bidx (shape s) idx)
                      + elems (input_pos a) (bidx (shape (input_pos a)) idx))
                 mod wrap_int (result_dtype s (input_pos a)) (cache_len (model_env self))"
      by blast
    have el2: "elems ev idx =
                 (elems s (bidx (shape s) idx)
                    + elems (input_pos a) (bidx (shape (input_pos a)) idx))
                 mod cache_len (model_env self)"
      if "in_dtype_range (dtype ev)
            (elems s (bidx (shape s) idx) + elems (input_pos a) (bidx (shape (input_pos a)) idx))"
        and "in_dtype_range (dtype ev) (cache_len (model_env self))" for idx
      using that by (simp add: el dt wrap_int_in_range)
    show ?thesis
      using sum sh dt el el2 c ev Some by simp
  qed
next
  fix logits
  assume "outcome (GemmaModel_forward sem self a caches) = Inr logits"
  then show "length (layer_calls (GemmaModel_forward sem self a caches)) = length (layers self)"
    by (rule forward_all_layers_called)
qed

theorem GemmaModel_forward_end_cursor_witness:
  "\<exists>m c e. GemmaModel_init ex_lib ex_cfg ex_env = Inr m
      \<and> layer_calls (GemmaModel_forward ex_sem m ex_args [0]) = [c]
      \<and> arg_end c = Some e \<and> shape e = [2] \<and> dtype e = TorchInt64
      \<and> elems e [0] = 0 \<and> elems e [1] = 3"
proof -
  obtain m where m: "GemmaModel_init ex_lib ex_cfg ex_env = Inr m"
    using ex_init by blast
  obtain c where c: "layer_calls (GemmaModel_forward ex_sem m ex_args [0]) = [c]"
    using ex_forward [OF m] by blast
  have env: "model_env m = ex_env"
    using GemmaModel_init_fields(2) [OF m] .
  from GemmaModel_forward_end_cursor [of ex_sem m ex_args "[0]"] c
  obtain sum e where
    s: "binop (+) (the (start ex_args)) (input_pos ex_args) = Inr sum"
    and e: "arg_end c = Some e" "shape e = shape sum"
    and dt: "dtype e = result_dtype (the (start ex_args)) (input_pos ex_args)"
    and el: "\<And>idx. in_dtype_range (dtype e)
                (elems (the (start ex_args)) (bidx (shape (the (start ex_args))) idx)
                   + elems (input_pos ex_args) (bidx (shape (input_pos ex_args)) idx))
              \<and> in_dtype_range (dtype e) (cache_len (model_env m)) \<Longrightarrow>
        elems e idx =
        (elems (the (start ex_args)) (bidx (shape (the (start ex_args))) idx)
           + elems (input_pos ex_args) (bidx (shape (input_pos ex_args)) idx))
        mod cache_len (model_env m)"
    by (auto simp: ex_args_def)
  have shs: "shape sum = [2]"
    using s by (auto simp: binop_def broadcast_shapes_def bind_err_def ex_args_def)
  have dt64: "dtype e = TorchInt64"
    by (simp add: dt result_dtype_def ex_args_def)
  have e0: "elems e [0] = 0"
    using el [of "[0]"] by (simp add: dt64 in_dtype_range_def env ex_env_def ex_args_def bidx_def)
  have e1: "elems e [1] = 3"
    using el [of "[1]"] by (simp add: dt64 in_dtype_range_def env ex_env_def ex_args_def bidx_def)
  show ?thesis
    using m c e shs dt64 e0 e1 by auto
qed

text \<open>
  With the origin \<open>2\<^sup>6\<^sup>3 - 1\<close> in a 64-bit tensor, the positions 1 and 5 and a cache of three
  positions, the sums wrap around to \<open>- 2\<^sup>6\<^sup>3\<close> and \<open>- 2\<^sup>6\<^sup>3 + 4\<close>, and the layer receives the
  remainders 1 and 2, where the integers \<open>start + input_pos\<close> have the remainders 2 and 0.
\<close>

theorem GemmaModel_forward_end_cursor_counterexample:
  "\<exists>m c s e. GemmaModel_init ex_lib ex_cfg env3 = Inr m
      \<and> cache_len (model_env m) = 3
      \<and> start big_args = Some s
      \<and> dtype s = TorchInt64 \<and> dtype (input_pos big_args) = TorchInt64
      \<and> in_dtype_range TorchInt64 (elems s [0]) \<and> in_dtype_range TorchInt64 (elems s [1])
      \<and> layer_calls (GemmaModel_forward ex_sem m big_args [0]) = [c]
      \<and> arg_end c = Some e
      \<and> elems e [0] = 1 \<and> elems e [1] = 2
      \<and> (elems s [0] + elems (input_pos big_args) [0]) mod 3 = 2
      \<and> (elems s [1] + elems (input_pos big_args) [1]) mod 3 = 0"
proof -
  obtain m where m: "GemmaModel_init ex_lib ex_cfg env3 = Inr m"
    using env3_init by blast
  have env: "model_env m = env3"
    using GemmaModel_init_fields(2) [OF m] .
  define s :: int_tensor where
    "s = \<lparr>shape = [2], elems = (\<lambda>idx. 9223372036854775807), dtype = TorchInt64\<rparr>"
  define e :: int_tensor where
    "e = \<lparr>shape = [2],
          elems = (\<lambda>idx. wrap_int TorchInt64
                     (elems s (bidx [2] idx) + elems (input_pos big_args) (bidx [2] idx)) mod 3),
          dtype = TorchInt64\<rparr>"
  have st: "start big_args = Some s"
    by (simp add: big_args_def s_def)
  have ec: "end_cursor (start big_args) (input_pos big_args) (cache_len env3) = Inr (Some e)"
    by (simp add: end_cursor_def big_args_def env3_def add_int_def binop_def broadcast_shapes_def
        remainder_scalar_def result_dtype_def wrap_int_def in_dtype_range_def bind_err_def
        Let_def e_def s_def)
  have "\<exists>c. layer_calls (GemmaModel_forward ex_sem m big_args [0]) = [c] \<and> arg_end c = Some e"
    using m _ _ _ _ _ _ ec by (rule small_forward) (simp_all add: big_args_def)
  then obtain c where c: "layer_calls (GemmaModel_forward ex_sem m big_args [0]) = [c]"
    and ce: "arg_end c = Some e"
    by blast
  have e0: "elems e [0] = 1" and e1: "elems e [1] = 2"
    by (simp_all add: e_def s_def big_args_def bidx_def wrap_int_def)
  have r: "in_dtype_range TorchInt64 (elems s [0])" "in_dtype_range TorchInt64 (elems s [1])"
    by (simp_all add: s_def in_dtype_range_def)
  have f: "(elems s [0] + elems (input_pos big_args) [0]) mod 3 = 2"
    "(elems s [1] + elems (input_pos big_args) [1]) mod 3 = 0"
    by (simp_all add: s_def big_args_def)
  have d: "dtype s = TorchInt64" "dtype (input_pos big_args) = TorchInt64"
    by (simp_all add: s_def big_args_def)
  show ?thesis
    using m env st d r c ce e0 e1 f by (auto simp: env3_def)
qed

text \<open>
  C7. The table \<open>freqs_cis\<close> of a constructed model is the value of \<open>precompute_freqs_cis\<close> at
  the configuration's head dimension, twice its \<open>max_position_embeddings\<close> and its
  \<open>rope_theta\<close> (10000 when absent). A call of \<open>forward\<close> leaves it as it is, and so does any
  sequence of calls; what \<open>forward\<close> passes to every layer is the table indexed at \<open>input_pos\<close>
  and reshaped to (batch, sequence, -1).
\<close>

theorem GemmaModel_freqs_cis_read_only:
  assumes "GemmaModel_init lib cfg environment = Inr m"
  shows "precompute_freqs_cis (GemmaConfig.head_dim cfg) (max_position_embeddings cfg * 2)
           (case rope_theta cfg of None \<Rightarrow> 10000 | Some t \<Rightarrow> t) = Inr (freqs_cis m)
         \<and> freqs_cis (self_after (GemmaModel_forward sem m a caches)) = freqs_cis m
         \<and> freqs_cis (fst (forward_calls sem m caches calls)) = freqs_cis m
         \<and> (\<forall>c \<in> set (layer_calls (GemmaModel_forward sem m a caches)).
               bind_err (index_rows (freqs_cis m) (input_pos a))
                 (reshape [int (shape (tokens a) ! 0), int (shape (tokens a) ! 1), - 1])
               = Inr (arg_freqs_cis c))"
  using GemmaModel_init_fields(3) [OF assms] forward_layer_calls [of _ sem m a caches]
  by (auto simp: forward_self_after forward_calls_self)

theorem GemmaModel_freqs_cis_read_only_witness:
  "\<exists>m. GemmaModel_init ex_lib ex_cfg ex_env = Inr m
      \<and> precompute_freqs_cis 2 8 10000 = Inr (freqs_cis m)
      \<and> freqs_cis (fst (forward_calls ex_sem m [0] [ex_args, ex_args])) = freqs_cis m"
proof -
  obtain m where m: "GemmaModel_init ex_lib ex_cfg ex_env = Inr m"
    using ex_init by blast
  from GemmaModel_freqs_cis_read_only [OF m, of ex_sem ex_args "[0]" "[ex_args, ex_args]"]
  show ?thesis
    using m by (auto simp: ex_cfg_def)
qed

section \<open>Properties of fetch\_models.py\<close>

text \<open>
  C5. For a repository id of the supported-model table, whatever the batch size and the
  two lengths, \<open>construct_env_data_from_model_id\<close> returns environment data whose cache
  sequence length is \<open>input_length + output_length\<close>, unless the override flag is
  strictly positive, in which case it is the flag's value; and whose cache shape is
  (batch size, the model's kv-head count, that cache length, the model's head dimension).
\<close>

theorem construct_env_data_cache_shape:
  assumes "model_id_to_class repo_id = Some info"
  shows "\<exists>env_data. construct_env_data_from_model_id flags defaults repo_id b i outp = Inr env_data
           \<and> cache_sequence_length env_data =
               (if override_max_cache_length flags > 0 then override_max_cache_length flags
                else i + outp)
           \<and> cache_shape env_data =
               (b, ModelInfo.num_kv_heads info, cache_sequence_length env_data,
                ModelInfo.head_dim info)"
  using assms by (simp add: construct_env_data_from_model_id_def Let_def)

theorem construct_env_data_cache_shape_witness:
  "model_id_to_class ''google/gemma-2b'' = Some gemma_2b
   \<and> (\<exists>env_data. construct_env_data_from_model_id default_FLAGS blank_env_data ''google/gemma-2b''
                 4 1024 1024 = Inr env_data
          \<and> cache_sequence_length env_data = 2048
          \<and> cache_shape env_data = (4, 1, 2048, 256))"
proof -
  have h: "model_id_to_class ''google/gemma-2b'' = Some gemma_2b"
    by (simp add: model_id_to_class_def model_id_to_class_items_def)
  from construct_env_data_cache_shape [OF h, of default_FLAGS blank_env_data 4 1024 1024]
  obtain env_data where
    "construct_env_data_from_model_id default_FLAGS blank_env_data ''google/gemma-2b''
       4 1024 1024 = Inr env_data"
    "cache_sequence_length env_data = 2048"
    "cache_shape env_data =
       (4, ModelInfo.num_kv_heads gemma_2b, cache_sequence_length env_data,
        ModelInfo.head_dim gemma_2b)"
    by (auto simp: default_FLAGS_def)
  then show ?thesis
    using h by (simp add: gemma_2b_def mk_ModelInfo_def)
qed

text \<open>
  C9. For a repository id that is not a key of the table, the lookup yields \<open>None\<close> and
  reading \<open>model_info.n_reps\<close> raises (an \<open>AttributeError\<close>): no environment data is
  returned. For a repository id of the table the function returns environment data.
\<close>

theorem construct_env_data_unknown_repo_id:
  "(model_id_to_class repo_id = None \<longrightarrow>
      construct_env_data_from_model_id flags defaults repo_id b i outp = Inl AttributeError)
   \<and> (repo_id \<in> dom model_id_to_class \<longrightarrow>
      (\<exists>env_data. construct_env_data_from_model_id flags defaults repo_id b i outp = Inr env_data))"
  by (auto simp: construct_env_data_from_model_id_def Let_def)

theorem construct_env_data_unknown_repo_id_witness:
  "model_id_to_class ''google/gemma-9b'' = None
   \<and> construct_env_data_from_model_id default_FLAGS blank_env_data ''google/gemma-9b'' 1 8 8
       = Inl AttributeError
   \<and> ''mistralai/Mixtral-8x7B-v0.1'' \<in> dom model_id_to_class
   \<and> (\<exists>env_data. construct_env_data_from_model_id default_FLAGS blank_env_data
               ''mistralai/Mixtral-8x7B-v0.1'' 1 8 8 = Inr env_data)"
proof -
  have n: "model_id_to_class ''google/gemma-9b'' = None"
    by (simp add: model_id_to_class_def model_id_to_class_items_def)
  have d: "''mistralai/Mixtral-8x7B-v0.1'' \<in> dom model_id_to_class"
    by (simp add: model_id_to_class_def model_id_to_class_items_def dom_def)
  show ?thesis
    using n d
      construct_env_data_unknown_repo_id
        [of "''google/gemma-9b''" default_FLAGS blank_env_data 1 8 8]
      construct_env_data_unknown_repo_id
        [of "''mistralai/Mixtral-8x7B-v0.1''" default_FLAGS blank_env_data 1 8 8]
    by blast
qed






















end
